theory Spec2Isabelle
  imports Complex_Main "HOL-Library.Sublist" "HOL-Library.Multiset"
begin

section \<open>JavaScript numbers and array reads\<close>

text \<open>
  The program is JavaScript. Its numbers are modelled as exact rationals extended by the
  three special values a computation of the program can produce: \<open>NaN\<close> (from \<open>0 / 0\<close>),
  \<open>Infinity\<close> and \<open>-Infinity\<close> (from a division by zero, from \<open>Math.min()\<close> and
  \<open>Math.max()\<close> of no arguments). Rounding errors of the binary representation are not
  modelled, and neither is the sign of zero.
\<close>

datatype jsnum = NaN | NegInf | Fin rat | PosInf

text \<open>\<open>a < b\<close>: false as soon as one side is \<open>NaN\<close>.\<close>

fun js_lt :: "jsnum \<Rightarrow> jsnum \<Rightarrow> bool" where
  "js_lt NaN _ = False"
| "js_lt _ NaN = False"
| "js_lt (Fin a) (Fin b) = (a < b)"
| "js_lt NegInf NegInf = False"
| "js_lt NegInf _ = True"
| "js_lt _ NegInf = False"
| "js_lt PosInf _ = False"
| "js_lt (Fin _) PosInf = True"

text \<open>\<open>a > b\<close> is \<open>b < a\<close>.\<close>

definition js_gt :: "jsnum \<Rightarrow> jsnum \<Rightarrow> bool" where
  "js_gt a b = js_lt b a"

fun js_neg :: "jsnum \<Rightarrow> jsnum" where
  "js_neg NaN = NaN"
| "js_neg NegInf = PosInf"
| "js_neg (Fin a) = Fin (- a)"
| "js_neg PosInf = NegInf"

fun js_add :: "jsnum \<Rightarrow> jsnum \<Rightarrow> jsnum" where
  "js_add NaN _ = NaN"
| "js_add _ NaN = NaN"
| "js_add (Fin a) (Fin b) = Fin (a + b)"
| "js_add PosInf NegInf = NaN"
| "js_add NegInf PosInf = NaN"
| "js_add PosInf _ = PosInf"
| "js_add _ PosInf = PosInf"
| "js_add NegInf _ = NegInf"
| "js_add _ NegInf = NegInf"

definition js_sub :: "jsnum \<Rightarrow> jsnum \<Rightarrow> jsnum" where
  "js_sub a b = js_add a (js_neg b)"

text \<open>The quotient \<open>a / b\<close> of two finite numbers: a division by zero does not fail.\<close>

definition js_div :: "rat \<Rightarrow> rat \<Rightarrow> jsnum" where
  "js_div a b =
     (if b \<noteq> 0 then Fin (a / b)
      else if 0 < a then PosInf
      else if a < 0 then NegInf
      else NaN)"

fun Math_floor :: "jsnum \<Rightarrow> jsnum" where
  "Math_floor (Fin a) = Fin (of_int \<lfloor>a\<rfloor>)"
| "Math_floor x = x"

text \<open>\<open>Math.round\<close> of a finite number: the nearest integer, a tie going up.\<close>

definition Math_round :: "rat \<Rightarrow> int" where
  "Math_round a = \<lfloor>a + 1 / 2\<rfloor>"

text \<open>
  \<open>Math.min(...xs)\<close> and \<open>Math.max(...xs)\<close> of a list of integers: \<open>Infinity\<close>
  and \<open>-Infinity\<close> when the list is empty.
\<close>

fun Math_min :: "int list \<Rightarrow> jsnum" where
  "Math_min [] = PosInf"
| "Math_min (x # xs) = Fin (of_int (fold min xs x))"

fun Math_max :: "int list \<Rightarrow> jsnum" where
  "Math_max [] = NegInf"
| "Math_max (x # xs) = Fin (of_int (fold max xs x))"

text \<open>
  An array holds values; a read outside the array, or at an index that is not a
  non-negative integer, gives \<open>undefined\<close> and does not fail.
\<close>

datatype 'a jsval = Undefined | Value 'a

fun js_nth :: "'a jsval list \<Rightarrow> jsnum \<Rightarrow> 'a jsval" where
  "js_nth xs (Fin q) =
     (if of_int \<lfloor>q\<rfloor> = q \<and> 0 \<le> q \<and> q < of_nat (length xs) then xs ! nat \<lfloor>q\<rfloor>
      else Undefined)"
| "js_nth xs _ = Undefined"

section \<open>The point sampler (\<open>utils/gpxParser.js\<close>)\<close>

text \<open>
  \<^verbatim>\<open>for (let i = step; i < allPoints.length - step; i += step) sampled.push(allPoints[i])\<close>

  \<open>samplePoints(allPoints, targetCount)\<close>; the target count is an integer (the caller
  passes 10, which is also the default). The loop need not terminate: a step that is not
  positive never leaves it, and the array grows until the engine gives up. So the loop is
  a partial function, and \<open>None\<close> is the loop that never returns.
\<close>

partial_function (option) sample_loop ::
  "'a jsval list \<Rightarrow> jsnum \<Rightarrow> jsnum \<Rightarrow> 'a jsval list \<Rightarrow> 'a jsval list option" where
  "sample_loop allPoints step i sampled =
     (if js_lt i (js_sub (Fin (of_nat (length allPoints))) step)
      then sample_loop allPoints step (js_add i step) (sampled @ [js_nth allPoints i])
      else Some sampled)"

declare sample_loop.simps [code]

definition samplePoints :: "'a jsval list \<Rightarrow> int \<Rightarrow> 'a jsval list option" where
  "samplePoints allPoints targetCount =
     (if int (length allPoints) \<le> targetCount then Some allPoints
      else
        let sampled = [js_nth allPoints (Fin 0)];
            step = Math_floor (js_div (of_nat (length allPoints) - 1) (of_int targetCount - 1))
        in case sample_loop allPoints step step sampled of
             None \<Rightarrow> None
           | Some sampled' \<Rightarrow>
               Some (sampled' @ [js_nth allPoints (Fin (of_nat (length allPoints) - 1))]))"

text \<open>The indices the loop visits when the step is a positive integer.\<close>

function sample_indices :: "nat \<Rightarrow> nat \<Rightarrow> nat \<Rightarrow> nat list" where
  "sample_indices s n i =
     (if 0 < s \<and> i + s < n then i # sample_indices s n (i + s) else [])"
  by pat_completeness auto
termination
  by (relation "measure (\<lambda>(s, n, i). n - i)") auto

declare sample_indices.simps [simp del]

section \<open>Forecast samples (\<open>StandAloneApp.jsx\<close>)\<close>

text \<open>
  One forecast sample, single-location or aggregated. \<open>time\<close> is the instant in
  milliseconds that the program prints with \<open>toISOString\<close>. The temperature and the wind
  speed are results of \<open>Math.round\<close>; the precipitation chance, the humidity and the
  weather code are the provider's integers. \<open>temperatureMin\<close>, \<open>temperatureMax\<close> and
  \<open>isAggregated\<close> exist on aggregated samples only: an absent property is \<open>None\<close>,
  respectively \<open>False\<close> (it reads as \<open>undefined\<close>, which is falsy).
\<close>

record weather =
  location :: "string jsval"
  time :: int
  temperature :: int
  temperatureMin :: "int option"
  temperatureMax :: "int option"
  windSpeed :: int
  precipitationChance :: int
  humidity :: int
  weatherCode :: int
  isAggregated :: bool

record coords =
  lat :: rat
  lon :: rat
  name :: string

record activity =
  activity_id :: string
  activity_name :: string
  speed :: nat

definition ACTIVITIES :: "activity list" where
  "ACTIVITIES =
     [\<lparr>activity_id = ''run'', activity_name = ''Run'', speed = 10\<rparr>,
      \<lparr>activity_id = ''mountain-bike'', activity_name = ''Mountain Bike'', speed = 15\<rparr>,
      \<lparr>activity_id = ''road-bike'', activity_name = ''Road Bike'', speed = 25\<rparr>,
      \<lparr>activity_id = ''downhill-ski'', activity_name = ''Downhill Ski'', speed = 30\<rparr>,
      \<lparr>activity_id = ''backcountry-ski'', activity_name = ''Backcountry Ski'', speed = 8\<rparr>,
      \<lparr>activity_id = ''nordic-ski'', activity_name = ''Nordic Ski'', speed = 12\<rparr>]"

record effort =
  effort_id :: string
  effort_name :: string
  description :: string
  heatFactor :: rat

definition EFFORT_LEVELS :: "effort list" where
  "EFFORT_LEVELS =
     [\<lparr>effort_id = ''easy'', effort_name = ''Easy'',
       description = ''Conversational pace'', heatFactor = 7 / 10\<rparr>,
      \<lparr>effort_id = ''endurance'', effort_name = ''Endurance'',
       description = ''Steady, sustained effort'', heatFactor = 1\<rparr>,
      \<lparr>effort_id = ''tempo'', effort_name = ''Tempo'',
       description = ''Comfortably hard'', heatFactor = 13 / 10\<rparr>,
      \<lparr>effort_id = ''all-out'', effort_name = ''All Out'',
       description = ''Maximum effort'', heatFactor = 16 / 10\<rparr>]"

section \<open>The forecast fetcher and its fallback\<close>

text \<open>
  \<open>generateMockWeather\<close>: five synthetic samples. \<open>random\<close> is the sequence of the
  values that the successive calls of \<open>Math.random()\<close> return; sample \<open>i\<close> makes five
  calls, in the order base temperature, jitter, wind, precipitation, humidity.
  \<open>locations[0]\<close> is \<open>undefined\<close> when there is no location.
\<close>

definition mockSample :: "string list \<Rightarrow> int \<Rightarrow> (nat \<Rightarrow> rat) \<Rightarrow> nat \<Rightarrow> weather" where
  "mockSample locations startTime random i =
     (let baseTemp = 50 + random (5 * i) * 30 in
      \<lparr>location = (case locations of [] \<Rightarrow> Undefined | l # _ \<Rightarrow> Value l),
       time = startTime + int i * 60 * 60 * 1000,
       temperature = Math_round (baseTemp + (random (5 * i + 1) - 1 / 2) * 10),
       temperatureMin = None,
       temperatureMax = None,
       windSpeed = Math_round (5 + random (5 * i + 2) * 15),
       precipitationChance = Math_round (random (5 * i + 3) * 100),
       humidity = Math_round (40 + random (5 * i + 4) * 40),
       weatherCode = 0,
       isAggregated = False\<rparr>)"

definition generateMockWeather :: "string list \<Rightarrow> int \<Rightarrow> (nat \<Rightarrow> rat) \<Rightarrow> weather list" where
  "generateMockWeather locations startTime random =
     map (mockSample locations startTime random) [0..<5]"

text \<open>
  One hour of the provider's answer: the entries at one index of its hourly arrays, the
  time already read as an instant. A precipitation probability can be \<open>null\<close>.
\<close>

record hour =
  hour_time :: int
  temperature_2m :: rat
  precipitation_probability :: "int option"
  wind_speed_10m :: rat
  relative_humidity_2m :: int
  weather_code :: int

text \<open>
  What the provider call gives: an exception (no network, no JSON, no hourly arrays),
  or the hourly arrays.
\<close>

datatype provider_response = ProviderFailure | Hourly "hour list"

text \<open>\<open>Array.prototype.findIndex\<close>; the source's \<open>-1\<close> is \<open>None\<close>.\<close>

fun findIndex :: "('a \<Rightarrow> bool) \<Rightarrow> 'a list \<Rightarrow> nat option" where
  "findIndex P [] = None"
| "findIndex P (x # xs) = (if P x then Some 0 else map_option Suc (findIndex P xs))"

text \<open>The body of the loop over \<open>i\<close>: the samples that slot \<open>i\<close> pushes, none or one.\<close>

definition hourSample :: "coords \<Rightarrow> int \<Rightarrow> hour list \<Rightarrow> nat \<Rightarrow> weather list" where
  "hourSample c startDate hourly i =
     (let currentTime = startDate + int i * 60 * 60 * 1000 in
      case findIndex (\<lambda>t. currentTime \<le> hour_time t) hourly of
        None \<Rightarrow> []
      | Some hourIndex \<Rightarrow>
          [\<lparr>location = Value (name c),
            time = currentTime,
            temperature = Math_round (temperature_2m (hourly ! hourIndex)),
            temperatureMin = None,
            temperatureMax = None,
            windSpeed = Math_round (wind_speed_10m (hourly ! hourIndex)),
            precipitationChance =
              (case precipitation_probability (hourly ! hourIndex) of
                 None \<Rightarrow> 0 | Some p \<Rightarrow> p),
            humidity = relative_humidity_2m (hourly ! hourIndex),
            weatherCode = weather_code (hourly ! hourIndex),
            isAggregated = False\<rparr>])"

text \<open>The returned object \<open>{ weatherData, coords }\<close>.\<close>

record fetch_result =
  result_weatherData :: "weather list"
  result_coords :: "coords option"

text \<open>
  \<open>fetchWeatherData(locations, startTime, providedCoords)\<close>. The start time is a valid
  instant, in milliseconds. The two network calls are inputs of the model: \<open>geocoded\<close> is
  what \<open>geocodeLocation(locations[0])\<close> resolves to (\<open>None\<close> is \<open>null\<close>), \<open>response\<close>
  is the provider's answer. Every exception of the \<open>try\<close> block ends in the \<open>catch\<close>,
  which returns the mock data.
\<close>

definition fetchWeatherData ::
  "string list \<Rightarrow> int \<Rightarrow> coords option \<Rightarrow> coords option \<Rightarrow> provider_response \<Rightarrow>
   (nat \<Rightarrow> rat) \<Rightarrow> fetch_result" where
  "fetchWeatherData locations startTime providedCoords geocoded response random =
     (case (case providedCoords of Some c \<Rightarrow> Some c | None \<Rightarrow> geocoded) of
        None \<Rightarrow>
          \<lparr>result_weatherData = generateMockWeather locations startTime random,
            result_coords = None\<rparr>
      | Some c \<Rightarrow>
          (case response of
             ProviderFailure \<Rightarrow>
               \<lparr>result_weatherData = generateMockWeather locations startTime random,
            result_coords = None\<rparr>
           | Hourly hourly \<Rightarrow>
               \<lparr>result_weatherData = concat (map (hourSample c startTime hourly) [0..<5]),
                result_coords = Some c\<rparr>))"

section \<open>The multi-point aggregation of \<open>fetchGPXWeatherData\<close>\<close>

text \<open>
  \<^verbatim>\<open>allWeatherResults.map(result => result.weatherData[hourIndex]).filter(Boolean)\<close>

  A read past the end of a point's sequence is \<open>undefined\<close> and is filtered out; a sample
  is an object and stays.
\<close>

definition hourDataPoints :: "weather list list \<Rightarrow> nat \<Rightarrow> weather list" where
  "hourDataPoints allWeatherResults hourIndex =
     List.map_filter
       (\<lambda>result. if hourIndex < length result then Some (result ! hourIndex) else None)
       allWeatherResults"

text \<open>
  What one hour slot pushes: nothing when no point has a sample there, one summary
  otherwise. \<open>Math.min(...temps)\<close> and \<open>Math.max(...temps)\<close> of a non-empty list run
  through the list from its first element, and the \<open>reduce\<close> from 0 is the sum.
\<close>

fun aggregateHour :: "weather list \<Rightarrow> weather list" where
  "aggregateHour [] = []"
| "aggregateHour (d # ds) =
     (let temps = map temperature (d # ds);
          winds = map windSpeed (d # ds);
          precips = map precipitationChance (d # ds);
          humidities = map humidity (d # ds)
      in [\<lparr>location = Value ''GPX Route'',
           time = time d,
           temperature =
             Math_round ((of_int (fold min (tl temps) (hd temps))
                          + of_int (fold max (tl temps) (hd temps))) / 2),
           temperatureMin = Some (fold min (tl temps) (hd temps)),
           temperatureMax = Some (fold max (tl temps) (hd temps)),
           windSpeed = fold max (tl winds) (hd winds),
           precipitationChance = fold max (tl precips) (hd precips),
           humidity = Math_round (of_int (sum_list humidities) / of_nat (length humidities)),
           weatherCode = weatherCode d,
           isAggregated = True\<rparr>])"

text \<open>The loop over the five hour slots, on the per-point sequences already fetched.\<close>

definition aggregatedWeather :: "weather list list \<Rightarrow> weather list" where
  "aggregatedWeather allWeatherResults =
     concat (map (\<lambda>hourIndex. aggregateHour (hourDataPoints allWeatherResults hourIndex)) [0..<5])"

section \<open>The recommendation engine\<close>

record layer =
  type :: string
  item :: string
  reason :: string

definition getRunningLayers :: "jsnum \<Rightarrow> jsnum \<Rightarrow> bool \<Rightarrow> layer list" where
  "getRunningLayers temp wind rain =
     (if js_lt temp (Fin 32) then
        [\<lparr>type = ''Base Layer'', item = ''Thermal long-sleeve top'', reason = ''Cold protection''\<rparr>,
         \<lparr>type = ''Base Layer'', item = ''Thermal tights'', reason = ''Leg warmth''\<rparr>,
         \<lparr>type = ''Mid Layer'', item = ''Light insulated vest'', reason = ''Core warmth''\<rparr>,
         \<lparr>type = ''Accessories'', item = ''Running gloves'', reason = ''Hand protection''\<rparr>,
         \<lparr>type = ''Accessories'', item = ''Headband or beanie'', reason = ''Ear warmth''\<rparr>]
      else if js_lt temp (Fin 50) then
        [\<lparr>type = ''Base Layer'', item = ''Long-sleeve tech shirt'', reason = ''Moisture wicking''\<rparr>,
         \<lparr>type = ''Base Layer'', item = ''Running tights or pants'', reason = ''Leg comfort''\<rparr>,
         \<lparr>type = ''Accessories'', item = ''Light gloves'', reason = ''Hand warmth''\<rparr>]
      else if js_lt temp (Fin 65) then
        [\<lparr>type = ''Base Layer'', item = ''Short-sleeve tech shirt'', reason = ''Breathability''\<rparr>,
         \<lparr>type = ''Base Layer'', item = ''Running shorts or capris'', reason = ''Mobility''\<rparr>]
      else
        [\<lparr>type = ''Base Layer'', item = ''Lightweight singlet'', reason = ''Maximum cooling''\<rparr>,
         \<lparr>type = ''Base Layer'', item = ''Running shorts'', reason = ''Comfort''\<rparr>,
         \<lparr>type = ''Accessories'', item = ''Visor or hat'', reason = ''Sun protection''\<rparr>]) @
     (if js_gt wind (Fin 15) then
        [\<lparr>type = ''Outer Layer'', item = ''Windbreaker jacket'', reason = ''Wind protection''\<rparr>]
      else []) @
     (if rain then
        [\<lparr>type = ''Outer Layer'', item = ''Waterproof running jacket'', reason = ''Rain protection''\<rparr>]
      else [])"

definition getMountainBikeLayers :: "jsnum \<Rightarrow> jsnum \<Rightarrow> bool \<Rightarrow> layer list" where
  "getMountainBikeLayers temp wind rain =
     (if js_lt temp (Fin 40) then
        [\<lparr>type = ''Base Layer'', item = ''Thermal long-sleeve jersey'', reason = ''Cold protection''\<rparr>,
         \<lparr>type = ''Base Layer'', item = ''Padded thermal bib tights'', reason = ''Comfort and warmth''\<rparr>,
         \<lparr>type = ''Mid Layer'', item = ''Softshell jacket'', reason = ''Insulation''\<rparr>,
         \<lparr>type = ''Accessories'', item = ''Winter cycling gloves'', reason = ''Hand warmth''\<rparr>,
         \<lparr>type = ''Accessories'', item = ''Thermal headband'', reason = ''Ear protection''\<rparr>]
      else if js_lt temp (Fin 60) then
        [\<lparr>type = ''Base Layer'', item = ''Long-sleeve MTB jersey'', reason = ''Trail protection''\<rparr>,
         \<lparr>type = ''Base Layer'', item = ''Padded shorts with knee warmers'', reason = ''Flexibility''\<rparr>,
         \<lparr>type = ''Accessories'', item = ''Light gloves'', reason = ''Grip and protection''\<rparr>]
      else
        [\<lparr>type = ''Base Layer'', item = ''Short-sleeve MTB jersey'', reason = ''Breathability''\<rparr>,
         \<lparr>type = ''Base Layer'', item = ''Padded shorts'', reason = ''Comfort''\<rparr>,
         \<lparr>type = ''Accessories'', item = ''Full-finger gloves'', reason = ''Trail protection''\<rparr>]) @
     (if rain then
        [\<lparr>type = ''Outer Layer'', item = ''Waterproof MTB jacket'', reason = ''Weather protection''\<rparr>]
      else []) @
     [\<lparr>type = ''Safety'', item = ''Helmet'', reason = ''Essential safety''\<rparr>,
      \<lparr>type = ''Safety'', item = ''Eye protection'', reason = ''Debris protection''\<rparr>]"

definition getRoadBikeLayers :: "jsnum \<Rightarrow> jsnum \<Rightarrow> bool \<Rightarrow> layer list" where
  "getRoadBikeLayers temp wind rain =
     (if js_lt temp (Fin 45) then
        [\<lparr>type = ''Base Layer'', item = ''Thermal cycling jersey'', reason = ''Warmth''\<rparr>,
         \<lparr>type = ''Base Layer'', item = ''Thermal bib tights'', reason = ''Leg warmth''\<rparr>,
         \<lparr>type = ''Mid Layer'', item = ''Wind vest'', reason = ''Core protection''\<rparr>,
         \<lparr>type = ''Accessories'', item = ''Winter cycling gloves'', reason = ''Hand warmth''\<rparr>,
         \<lparr>type = ''Accessories'', item = ''Thermal cap under helmet'', reason = ''Head warmth''\<rparr>]
      else if js_lt temp (Fin 65) then
        [\<lparr>type = ''Base Layer'', item = ''Long-sleeve cycling jersey'', reason = ''Comfort''\<rparr>,
         \<lparr>type = ''Base Layer'', item = ''Bib shorts with leg warmers'', reason = ''Adaptability''\<rparr>,
         \<lparr>type = ''Accessories'', item = ''Light gloves'', reason = ''Grip''\<rparr>]
      else
        [\<lparr>type = ''Base Layer'', item = ''Short-sleeve cycling jersey'', reason = ''Cooling''\<rparr>,
         \<lparr>type = ''Base Layer'', item = ''Bib shorts'', reason = ''Comfort''\<rparr>,
         \<lparr>type = ''Accessories'', item = ''Cycling cap'', reason = ''Sun protection''\<rparr>]) @
     (if js_gt wind (Fin 15) then
        [\<lparr>type = ''Outer Layer'', item = ''Wind jacket'', reason = ''Aerodynamics''\<rparr>]
      else []) @
     (if rain then
        [\<lparr>type = ''Outer Layer'', item = ''Waterproof cycling jacket'', reason = ''Rain protection''\<rparr>]
      else []) @
     [\<lparr>type = ''Safety'', item = ''Helmet'', reason = ''Essential safety''\<rparr>,
      \<lparr>type = ''Safety'', item = ''Cycling glasses'', reason = ''Eye protection''\<rparr>]"

definition getDownhillSkiLayers :: "jsnum \<Rightarrow> jsnum \<Rightarrow> bool \<Rightarrow> layer list" where
  "getDownhillSkiLayers temp wind rain =
     (if js_lt temp (Fin 20) then
        [\<lparr>type = ''Base Layer'', item = ''Heavyweight thermal top'', reason = ''Extreme cold''\<rparr>,
         \<lparr>type = ''Base Layer'', item = ''Heavyweight thermal bottoms'', reason = ''Leg warmth''\<rparr>,
         \<lparr>type = ''Mid Layer'', item = ''Insulated ski jacket'', reason = ''Core warmth''\<rparr>,
         \<lparr>type = ''Outer Layer'', item = ''Waterproof ski pants'', reason = ''Snow protection''\<rparr>,
         \<lparr>type = ''Accessories'', item = ''Insulated ski gloves'', reason = ''Hand warmth''\<rparr>,
         \<lparr>type = ''Accessories'', item = ''Balaclava or neck gaiter'', reason = ''Face protection''\<rparr>]
      else
        [\<lparr>type = ''Base Layer'', item = ''Midweight thermal top'', reason = ''Moisture management''\<rparr>,
         \<lparr>type = ''Base Layer'', item = ''Midweight thermal bottoms'', reason = ''Comfort''\<rparr>,
         \<lparr>type = ''Mid Layer'', item = ''Lightweight insulated jacket'', reason = ''Warmth''\<rparr>,
         \<lparr>type = ''Outer Layer'', item = ''Waterproof ski pants'', reason = ''Snow protection''\<rparr>,
         \<lparr>type = ''Accessories'', item = ''Ski gloves'', reason = ''Hand protection''\<rparr>,
         \<lparr>type = ''Accessories'', item = ''Neck gaiter'', reason = ''Versatility''\<rparr>]) @
     [\<lparr>type = ''Safety'', item = ''Ski helmet'', reason = ''Essential safety''\<rparr>,
      \<lparr>type = ''Safety'', item = ''Ski goggles'', reason = ''Vision protection''\<rparr>]"

definition getBackcountrySkiLayers :: "jsnum \<Rightarrow> jsnum \<Rightarrow> bool \<Rightarrow> layer list" where
  "getBackcountrySkiLayers temp wind rain =
     (if js_lt temp (Fin 20) then
        [\<lparr>type = ''Base Layer'', item = ''Merino wool top'', reason = ''Temperature regulation''\<rparr>,
         \<lparr>type = ''Base Layer'', item = ''Merino wool bottoms'', reason = ''Warmth and breathability''\<rparr>,
         \<lparr>type = ''Mid Layer'', item = ''Lightweight down jacket'', reason = ''Packable warmth''\<rparr>,
         \<lparr>type = ''Outer Layer'', item = ''Hardshell jacket'', reason = ''Weather protection''\<rparr>,
         \<lparr>type = ''Outer Layer'', item = ''Hardshell pants'', reason = ''Snow protection''\<rparr>]
      else
        [\<lparr>type = ''Base Layer'', item = ''Lightweight merino top'', reason = ''Breathability''\<rparr>,
         \<lparr>type = ''Base Layer'', item = ''Lightweight merino bottoms'', reason = ''Comfort''\<rparr>,
         \<lparr>type = ''Mid Layer'', item = ''Fleece or softshell'', reason = ''Active insulation''\<rparr>,
         \<lparr>type = ''Outer Layer'', item = ''Softshell pants'', reason = ''Mobility''\<rparr>]) @
     [\<lparr>type = ''Accessories'', item = ''Lightweight gloves'', reason = ''Hand warmth while touring''\<rparr>,
      \<lparr>type = ''Accessories'', item = ''Beanie or headband'', reason = ''Head warmth''\<rparr>,
      \<lparr>type = ''Safety'', item = ''Ski helmet'', reason = ''Safety''\<rparr>,
      \<lparr>type = ''Safety'', item = ''Ski goggles + sunglasses'', reason = ''Variable conditions''\<rparr>]"

definition getNordicSkiLayers :: "jsnum \<Rightarrow> jsnum \<Rightarrow> bool \<Rightarrow> layer list" where
  "getNordicSkiLayers temp wind rain =
     (if js_lt temp (Fin 20) then
        [\<lparr>type = ''Base Layer'', item = ''Thermal racing suit or top/bottom'', reason = ''Warmth''\<rparr>,
         \<lparr>type = ''Mid Layer'', item = ''Light vest'', reason = ''Core warmth''\<rparr>,
         \<lparr>type = ''Accessories'', item = ''Insulated gloves'', reason = ''Hand warmth''\<rparr>,
         \<lparr>type = ''Accessories'', item = ''Headband or light beanie'', reason = ''Ear protection''\<rparr>]
      else if js_lt temp (Fin 40) then
        [\<lparr>type = ''Base Layer'', item = ''XC ski suit or jersey/tights'', reason = ''Aerodynamics''\<rparr>,
         \<lparr>type = ''Accessories'', item = ''Light gloves'', reason = ''Grip and warmth''\<rparr>,
         \<lparr>type = ''Accessories'', item = ''Headband'', reason = ''Ear warmth''\<rparr>]
      else
        [\<lparr>type = ''Base Layer'', item = ''Lightweight XC top'', reason = ''Cooling''\<rparr>,
         \<lparr>type = ''Base Layer'', item = ''Lightweight XC tights'', reason = ''Mobility''\<rparr>,
         \<lparr>type = ''Accessories'', item = ''Thin gloves'', reason = ''Pole grip''\<rparr>]) @
     (if js_gt wind (Fin 15) \<or> rain then
        [\<lparr>type = ''Outer Layer'', item = ''Wind vest or light shell'', reason = ''Weather protection''\<rparr>]
      else []) @
     [\<lparr>type = ''Accessories'', item = ''Sunglasses or light goggles'', reason = ''Eye protection''\<rparr>]"

text \<open>
  The base temperature (the variable \<open>avgTemp\<close>). The sequence counts as aggregated when
  its first sample carries the flag. \<open>w.temperatureMin || w.temperature\<close> takes the
  temperature when \<open>temperatureMin\<close> is absent and also when it is 0, which is falsy.
\<close>

definition avgTemp :: "weather list \<Rightarrow> jsnum" where
  "avgTemp weatherData =
     (if (case weatherData of [] \<Rightarrow> False | w # _ \<Rightarrow> isAggregated w)
      then Math_min (map (\<lambda>w. case temperatureMin w of
                                 None \<Rightarrow> temperature w
                               | Some m \<Rightarrow> if m = 0 then temperature w else m) weatherData)
      else js_div (of_int (sum_list (map temperature weatherData)))
                  (of_nat (length weatherData)))"

definition maxWind :: "weather list \<Rightarrow> jsnum" where
  "maxWind weatherData = Math_max (map windSpeed weatherData)"

definition hasRain :: "weather list \<Rightarrow> bool" where
  "hasRain weatherData = list_ex (\<lambda>w. 30 < precipitationChance w) weatherData"

definition feltTemp :: "weather list \<Rightarrow> effort \<Rightarrow> jsnum" where
  "feltTemp weatherData e = js_add (avgTemp weatherData) (Fin ((heatFactor e - 1) * 15))"

text \<open>
  The property names that every object literal inherits from \<open>Object.prototype\<close>; the
  value of each is a function or an object, hence truthy.
\<close>

definition Object_prototype :: "string list" where
  "Object_prototype =
     [''constructor'', ''hasOwnProperty'', ''isPrototypeOf'', ''propertyIsEnumerable'',
      ''toLocaleString'', ''toString'', ''valueOf'', ''__proto__'',
      ''__defineGetter__'', ''__defineSetter__'', ''__lookupGetter__'', ''__lookupSetter__'']"

text \<open>
  What \<open>generateRecommendations\<close> returns: a list of layers, or the inherited property of
  the given name when \<open>layers[activity]\<close> finds one.
\<close>

datatype recommendations = Layers "layer list" | Inherited string

datatype js_error = TypeError

text \<open>
  \<open>generateRecommendations(activity, weatherData, effortLevel)\<close>; the fourth parameter
  of the source is never read. \<open>effort.heatFactor\<close> throws a \<open>TypeError\<close> when
  \<open>find\<close> returned \<open>undefined\<close>. \<open>layers[activity]\<close> reads an own property, then an
  inherited one; an array is truthy even when empty, so \<open>|| []\<close> only replaces
  \<open>undefined\<close>.
\<close>

definition generateRecommendations ::
  "string \<Rightarrow> weather list \<Rightarrow> string \<Rightarrow> js_error + recommendations" where
  "generateRecommendations act weatherData effortLevel =
     (case find (\<lambda>e. effort_id e = effortLevel) EFFORT_LEVELS of
        None \<Rightarrow> Inl TypeError
      | Some e \<Rightarrow>
          (let temp = feltTemp weatherData e;
               wind = maxWind weatherData;
               rain = hasRain weatherData;
               layers =
                 [(''run'', getRunningLayers temp wind rain),
                  (''mountain-bike'', getMountainBikeLayers temp wind rain),
                  (''road-bike'', getRoadBikeLayers temp wind rain),
                  (''downhill-ski'', getDownhillSkiLayers temp wind rain),
                  (''backcountry-ski'', getBackcountrySkiLayers temp wind rain),
                  (''nordic-ski'', getNordicSkiLayers temp wind rain)]
           in Inr (case map_of layers act of
                     Some ls \<Rightarrow> Layers ls
                   | None \<Rightarrow>
                       if act \<in> set Object_prototype then Inherited act else Layers [])))"

section \<open>Properties of the point sampler\<close>

lemma js_nth_of_nat: "js_nth xs (Fin (of_nat i)) = (if i < length xs then xs ! i else Undefined)"
  by simp

lemma sample_loop_pos:
  "0 < s \<Longrightarrow> sample_loop xs (Fin (of_nat s)) (Fin (of_nat i)) acc =
     Some (acc @ map (\<lambda>k. xs ! k) (sample_indices s (length xs) i))"
proof (induction s "length xs" i arbitrary: acc rule: sample_indices.induct)
  case (1 s i)
  show ?case
  proof (cases "i + s < length xs")
    case True
    have lt: "js_lt (Fin (of_nat i)) (js_sub (Fin (of_nat (length xs))) (Fin (of_nat s)))"
      using True by (simp add: js_sub_def less_diff_eq flip: of_nat_add)
    have "sample_loop xs (Fin (of_nat s)) (Fin (of_nat i)) acc
        = sample_loop xs (Fin (of_nat s)) (Fin (of_nat (i + s))) (acc @ [xs ! i])"
      using True lt by (subst sample_loop.simps) simp
    also have "\<dots> = Some ((acc @ [xs ! i]) @ map (\<lambda>k. xs ! k) (sample_indices s (length xs) (i + s)))"
      using 1 True by blast
    finally show ?thesis using True 1(2)
      by (subst sample_indices.simps) simp
  next
    case False
    have lt: "\<not> js_lt (Fin (of_nat i)) (js_sub (Fin (of_nat (length xs))) (Fin (of_nat s)))"
      using False by (simp add: js_sub_def less_diff_eq flip: of_nat_add)
    show ?thesis using False lt
      by (subst sample_loop.simps, subst sample_indices.simps) simp
  qed
qed

lemma sample_indices_bounds:
  "k \<in> set (sample_indices s n i) \<Longrightarrow> i \<le> k \<and> k + s < n"
proof (induction s n i rule: sample_indices.induct)
  case (1 s n i)
  then show ?case
    by (subst (asm) (2) sample_indices.simps) (auto split: if_splits)
qed

lemma sample_indices_sorted: "sorted_wrt (<) (sample_indices s n i)"
proof (induction s n i rule: sample_indices.induct)
  case (1 s n i)
  show ?case
  proof (cases "0 < s \<and> i + s < n")
    case True
    then show ?thesis using 1 sample_indices_bounds[of _ s n "i + s"]
      by (subst sample_indices.simps) force
  next
    case False
    then show ?thesis by (subst sample_indices.simps) auto
  qed
qed

lemma sample_indices_length:
  "0 < s \<Longrightarrow> i < n \<Longrightarrow> length (sample_indices s n i) * s \<le> n - 1 - i"
proof (induction s n i rule: sample_indices.induct)
  case (1 s n i)
  show ?case
  proof (cases "i + s < n")
    case True
    then have "length (sample_indices s n (i + s)) * s \<le> n - 1 - (i + s)"
      using 1 by simp
    then show ?thesis using True 1(2)
      by (subst sample_indices.simps) simp
  next
    case False
    then show ?thesis by (subst sample_indices.simps) simp
  qed
qed

lemma subseq_map_nth_drop:
  "sorted_wrt (<) ks \<Longrightarrow> \<forall>k\<in>set ks. m \<le> k \<and> k < length xs \<Longrightarrow>
   subseq (map (\<lambda>k. xs ! k) ks) (drop m xs)"
proof (induction ks arbitrary: m)
  case Nil
  then show ?case by simp
next
  case (Cons j js)
  have j: "m \<le> j" "j < length xs" using Cons.prems(2) by simp_all
  have "\<forall>k\<in>set js. Suc j \<le> k \<and> k < length xs"
    using Cons.prems by auto
  moreover have "sorted_wrt (<) js" using Cons.prems(1) by simp
  ultimately have "subseq (map (\<lambda>k. xs ! k) js) (drop (Suc j) xs)"
    using Cons.IH by blast
  then have "subseq (xs ! j # map (\<lambda>k. xs ! k) js) (xs ! j # drop (Suc j) xs)"
    by simp
  then have "subseq (xs ! j # map (\<lambda>k. xs ! k) js) (drop j xs)"
    using j(2) by (simp add: Cons_nth_drop_Suc)
  then have "subseq (xs ! j # map (\<lambda>k. xs ! k) js) (take (j - m) (drop m xs) @ drop j xs)"
    by (rule list_emb_append2)
  moreover have "take (j - m) (drop m xs) @ drop j xs = drop m xs"
    using j(1) by (metis append_take_drop_id drop_drop le_add_diff_inverse2)
  ultimately show ?case by simp
qed

lemma subseq_map_nth:
  "sorted_wrt (<) ks \<Longrightarrow> \<forall>k\<in>set ks. k < length xs \<Longrightarrow> subseq (map (\<lambda>k. xs ! k) ks) xs"
  using subseq_map_nth_drop[of ks 0 xs] by simp

lemma div_bound:
  fixes n d :: nat
  assumes "0 < d" "d \<le> n"
  shows "n div (n div d) < 2 * d"
proof -
  define s where "s = n div d"
  have s: "0 < s" using assms unfolding s_def by (simp add: div_greater_zero_iff)
  have "n < (s + 1) * d"
    unfolding s_def using assms(1) by (metis Suc_eq_plus1 dividend_less_div_times mult.commute mult_Suc)
  also have "\<dots> \<le> 2 * s * d" using s by simp
  finally have "n < (2 * d) * s" by (simp add: mult.commute mult.left_commute)
  then show ?thesis unfolding s_def[symmetric] using s
    by (simp add: less_mult_imp_div_less)
qed

lemma step_pos:
  assumes "2 \<le> t" "t < int (length xs)"
  shows "Math_floor (js_div (of_nat (length xs) - 1) (of_int t - 1))
       = Fin (of_nat ((length xs - 1) div nat (t - 1)))"
proof -
  have ne: "(of_int t - 1 :: rat) \<noteq> 0" using assms(1) by simp
  have a: "(of_nat (length xs) - 1 :: rat) = of_int (int (length xs - 1))"
    using assms by (simp add: of_nat_diff)
  have b: "(of_int t - 1 :: rat) = of_int (int (nat (t - 1)))"
    using assms by simp
  have "\<lfloor>(of_nat (length xs) - 1 :: rat) / (of_int t - 1)\<rfloor>
      = int (length xs - 1) div int (nat (t - 1))"
    unfolding a b by (rule floor_divide_of_int_eq)
  also have "\<dots> = int ((length xs - 1) div nat (t - 1))"
    by (simp add: zdiv_int)
  finally show ?thesis using ne by (simp add: js_div_def)
qed

lemma samplePoints_pos:
  assumes "2 \<le> t" "t < int (length xs)"
  shows "samplePoints xs t =
    Some (map (\<lambda>k. xs ! k)
      (0 # sample_indices ((length xs - 1) div nat (t - 1)) (length xs)
             ((length xs - 1) div nat (t - 1)) @ [length xs - 1]))"
proof -
  define s where "s = (length xs - 1) div nat (t - 1)"
  have len: "3 \<le> length xs" using assms by linarith
  have s: "0 < s" unfolding s_def using assms by (simp add: div_greater_zero_iff)
  have ne: "xs \<noteq> []" using len by auto
  have z: "js_nth xs (Fin 0) = xs ! 0"
    using ne by simp
  have "(of_nat (length xs) - 1 :: rat) = of_nat (length xs - 1)"
    using len by (simp add: of_nat_diff)
  then have "js_nth xs (Fin (of_nat (length xs) - 1)) = js_nth xs (Fin (of_nat (length xs - 1)))"
    by (rule arg_cong)
  also have "\<dots> = xs ! (length xs - 1)"
    using ne by (simp only: js_nth_of_nat) simp
  finally have l: "js_nth xs (Fin (of_nat (length xs) - 1)) = xs ! (length xs - 1)" .
  show ?thesis
    unfolding samplePoints_def Let_def step_pos[OF assms] s_def[symmetric] z l
    using assms(2) s by (simp add: sample_loop_pos)
qed


lemma sample_loop_diverges_aux:
  assumes "sample_loop xs st i acc = Some y"
  shows "\<not> (xs \<noteq> [] \<and> (\<exists>\<sigma> q. st = Fin \<sigma> \<and> i = Fin q \<and> \<sigma> \<le> 0 \<and> q \<le> 0))"
proof (rule sample_loop.raw_induct
    [where P = "\<lambda>xs st i acc y.
       \<not> (xs \<noteq> [] \<and> (\<exists>\<sigma> q. st = Fin \<sigma> \<and> i = Fin q \<and> \<sigma> \<le> 0 \<and> q \<le> 0))", OF _ assms])
  fix loop xs st i acc and y :: "'a jsval list"
  assume IH: "\<And>xs st i acc y. loop xs st i acc = Some y \<Longrightarrow>
      \<not> (xs \<noteq> [] \<and> (\<exists>\<sigma> q. st = Fin \<sigma> \<and> i = Fin q \<and> \<sigma> \<le> 0 \<and> q \<le> 0))"
    and eq: "(if js_lt i (js_sub (Fin (of_nat (length xs))) st)
              then loop xs st (js_add i st) (acc @ [js_nth xs i])
              else Some acc) = Some y"
  show "\<not> (xs \<noteq> [] \<and> (\<exists>\<sigma> q. st = Fin \<sigma> \<and> i = Fin q \<and> \<sigma> \<le> 0 \<and> q \<le> 0))"
  proof
    assume a: "xs \<noteq> [] \<and> (\<exists>\<sigma> q. st = Fin \<sigma> \<and> i = Fin q \<and> \<sigma> \<le> 0 \<and> q \<le> 0)"
    then obtain \<sigma> q where sq: "st = Fin \<sigma>" "i = Fin q" "\<sigma> \<le> 0" "q \<le> 0" by blast
    have "0 < length xs" using a by simp
    then have "(0::rat) < of_nat (length xs)" by simp
    then have lt: "q < of_nat (length xs) - \<sigma>" using sq(3,4) by linarith
    have "loop xs st (js_add i st) (acc @ [js_nth xs i]) = Some y"
      using eq lt sq by (simp add: js_sub_def)
    then have "\<not> (xs \<noteq> [] \<and>
        (\<exists>\<sigma>' q'. st = Fin \<sigma>' \<and> js_add i st = Fin q' \<and> \<sigma>' \<le> 0 \<and> q' \<le> 0))"
      by (rule IH)
    moreover have "js_add i st = Fin (q + \<sigma>)" "q + \<sigma> \<le> 0" using sq by simp_all
    ultimately show False using a sq by blast
  qed
qed

lemma sample_loop_diverges:
  assumes "xs \<noteq> []" "\<sigma> \<le> 0" "q \<le> 0"
  shows "sample_loop xs (Fin \<sigma>) (Fin q) acc = None"
proof (cases "sample_loop xs (Fin \<sigma>) (Fin q) acc")
  case None
  then show ?thesis .
next
  case (Some y)
  then show ?thesis using sample_loop_diverges_aux[OF Some] assms by blast
qed

lemma samplePoints_one:
  assumes "1 < length xs"
  shows "samplePoints xs 1 = Some [hd xs, last xs]"
proof -
  have ne: "xs \<noteq> []" using assms by auto
  have "(0::rat) < of_nat (length xs) - 1" using assms by simp
  then have step: "Math_floor (js_div (of_nat (length xs) - 1) (of_int 1 - 1)) = PosInf"
    by (simp add: js_div_def)
  have loop: "sample_loop xs PosInf PosInf acc = Some acc" for acc
    by (subst sample_loop.simps) (simp add: js_sub_def)
  have z: "js_nth xs (Fin 0) = hd xs" using ne by (simp add: hd_conv_nth)
  have "(of_nat (length xs) - 1 :: rat) = of_nat (length xs - 1)"
    using assms by (simp add: of_nat_diff)
  then have "js_nth xs (Fin (of_nat (length xs) - 1)) = js_nth xs (Fin (of_nat (length xs - 1)))"
    by (rule arg_cong)
  also have "\<dots> = last xs"
    using ne by (simp only: js_nth_of_nat) (simp add: last_conv_nth)
  finally have l: "js_nth xs (Fin (of_nat (length xs) - 1)) = last xs" .
  show ?thesis
    unfolding samplePoints_def Let_def step loop z l using assms by simp
qed

lemma samplePoints_nonpos:
  assumes "t \<le> 0" "xs \<noteq> []"
  shows "samplePoints xs t = None"
proof -
  have ne: "(of_int t - 1 :: rat) \<noteq> 0" using assms(1) by (metis diff_eq_eq add_0 of_int_eq_1_iff not_one_le_zero)
  have num: "(0::rat) \<le> of_nat (length xs) - 1" using assms(2) by (simp add: Suc_leI)
  have den: "(of_int t - 1 :: rat) < 0" using assms(1) by simp
  have "(of_nat (length xs) - 1 :: rat) / (of_int t - 1) \<le> 0"
    using num den by (simp add: divide_nonneg_neg)
  then have "(of_int \<lfloor>(of_nat (length xs) - 1 :: rat) / (of_int t - 1)\<rfloor> :: rat) \<le> 0"
    by (meson of_int_floor_le order_trans)
  then obtain \<sigma> :: rat where step: "Math_floor (js_div (of_nat (length xs) - 1) (of_int t - 1)) = Fin \<sigma>"
      and \<sigma>: "\<sigma> \<le> 0"
    using ne by (simp add: js_div_def)
  have "\<not> int (length xs) \<le> t" using assms by (cases xs) auto
  then show ?thesis
    unfolding samplePoints_def Let_def step
    using sample_loop_diverges[OF assms(2) \<sigma> \<sigma>] by simp
qed

lemma samplePoints_empty_neg:
  assumes "t < 0"
  shows "samplePoints ([] :: 'a jsval list) t = Some [Undefined, Undefined]"
proof -
  have "(-1) div (t - 1) = 0" using assms by (simp add: div_eq_0_iff) 
  then have "\<lfloor>(of_int (-1) :: rat) / of_int (t - 1)\<rfloor> = 0"
    by (simp only: floor_divide_of_int_eq)
  then have fl: "\<lfloor>(- 1 :: rat) / (of_int t - 1)\<rfloor> = 0" by simp
  have ne: "(of_int t - 1 :: rat) \<noteq> 0" using assms by (metis diff_eq_eq add_0 of_int_eq_1_iff not_one_less_zero less_imp_le not_one_le_zero)
  have step: "Math_floor (js_div (of_nat (length ([] :: 'a jsval list)) - 1) (of_int t - 1)) = Fin 0"
    using ne fl by (simp add: js_div_def)
  have loop: "sample_loop ([] :: 'a jsval list) (Fin 0) (Fin 0) acc = Some acc" for acc
    by (subst sample_loop.simps) (simp add: js_sub_def)
  show ?thesis
    unfolding samplePoints_def Let_def step loop using assms by simp
qed


text \<open>
  Claim C8. A point sequence whose length is at most \<open>targetCount\<close> is returned
  unchanged; so sampling an already sampled output again with the same \<open>targetCount\<close>
  returns it unchanged whenever its length is at most \<open>targetCount\<close>.
\<close>

theorem samplePoints_identity_idempotent:
  "(int (length allPoints) \<le> targetCount \<longrightarrow> samplePoints allPoints targetCount = Some allPoints)
   \<and> (samplePoints allPoints targetCount = Some sampled \<and> int (length sampled) \<le> targetCount
        \<longrightarrow> samplePoints sampled targetCount = Some sampled)"
  by (simp add: samplePoints_def)

text \<open>
  The identity at two points with target 2, and the second sampling of the three points
  that five points with target 3 are reduced to.
\<close>

theorem samplePoints_identity_idempotent_witness:
  "samplePoints [Value (1::nat), Value 2] 2 = Some [Value 1, Value 2]
   \<and> samplePoints [Value (1::nat), Value 2, Value 3, Value 4, Value 5] 3
       = Some [Value 1, Value 3, Value 5]
   \<and> samplePoints [Value (1::nat), Value 3, Value 5] 3 = Some [Value 1, Value 3, Value 5]"
proof -
  have s: "samplePoints [Value (1::nat), Value 2, Value 3, Value 4, Value 5] 3
       = Some [Value 1, Value 3, Value 5]"
    by (simp add: samplePoints_def js_div_def js_sub_def sample_loop.simps)
  show ?thesis
    using s samplePoints_identity_idempotent [of "[Value (1::nat), Value 2]" 2]
      samplePoints_identity_idempotent
        [of "[Value (1::nat), Value 2, Value 3, Value 4, Value 5]" 3 "[Value 1, Value 3, Value 5]"]
    by simp
qed

text \<open>
  Claim C1, as far as the code goes. For a sequence longer than \<open>targetCount \<ge> 2\<close> the
  sampler returns; its output starts with the first point and ends with the last point of
  the input, is a subsequence of the input, and has at most \<open>2 * targetCount - 2\<close>
  points. The bound \<open>targetCount\<close> of the claim does not hold: the step is rounded down.
\<close>

theorem samplePoints_keeps_ends_in_order:
  assumes "2 \<le> targetCount" "targetCount < int (length allPoints)"
  shows "\<exists>sampled. samplePoints allPoints targetCount = Some sampled
           \<and> hd sampled = hd allPoints \<and> last sampled = last allPoints
           \<and> subseq sampled allPoints
           \<and> int (length sampled) \<le> 2 * targetCount - 2"
proof -
  define n where "n = length allPoints"
  define d where "d = nat (targetCount - 1)"
  define s where "s = (n - 1) div d"
  define ks where "ks = 0 # sample_indices s n s @ [n - 1]"
  have len: "3 \<le> n" using assms unfolding n_def by linarith
  have d: "0 < d" "d \<le> n - 1" using assms unfolding d_def n_def by linarith+
  have s: "0 < s" unfolding s_def using d by (simp add: div_greater_zero_iff)
  have "s \<le> n - 1" unfolding s_def by (rule div_le_dividend)
  then have sn: "s < n" using len by linarith
  have res: "samplePoints allPoints targetCount = Some (map (\<lambda>k. allPoints ! k) ks)"
    unfolding ks_def s_def d_def n_def by (rule samplePoints_pos[OF assms])
  have bounds: "\<forall>k\<in>set (sample_indices s n s). s \<le> k \<and> k + s < n"
    using sample_indices_bounds by blast
  have sorted: "sorted_wrt (<) ks"
    unfolding ks_def using bounds s sample_indices_sorted[of s n s] len
    by (auto simp: sorted_wrt_append)
  have range: "\<forall>k\<in>set ks. k < length allPoints"
    unfolding ks_def using bounds len n_def by auto
  have sub: "subseq (map (\<lambda>k. allPoints ! k) ks) allPoints"
    using sorted range by (rule subseq_map_nth)
  have ne: "allPoints \<noteq> []" using len n_def by auto
  have h: "hd (map (\<lambda>k. allPoints ! k) ks) = hd allPoints"
    unfolding ks_def using ne by (simp add: hd_conv_nth)
  have l: "last (map (\<lambda>k. allPoints ! k) ks) = last allPoints"
    unfolding ks_def using ne by (simp add: last_conv_nth n_def last_map)
  have "length (sample_indices s n s) * s \<le> n - 1 - s"
    using s sn by (rule sample_indices_length)
  then have "(length (sample_indices s n s) + 1) * s \<le> n - 1"
    using sn by (simp add: algebra_simps)
  then have "length (sample_indices s n s) + 1 \<le> (n - 1) div s"
    using s by (simp add: less_eq_div_iff_mult_less_eq)
  also have "\<dots> < 2 * d" unfolding s_def using d by (rule div_bound)
  finally have "length ks \<le> 2 * d" unfolding ks_def by simp
  then have "int (length ks) \<le> 2 * targetCount - 2"
    unfolding d_def using assms(1) by linarith
  then show ?thesis using res sub h l by auto
qed

text \<open>Five points with target 3: the step is 2 and three points are kept.\<close>

theorem samplePoints_keeps_ends_in_order_witness:
  "(2::int) \<le> 3 \<and> 3 < int (length [Value (1::nat), Value 2, Value 3, Value 4, Value 5])
   \<and> (\<exists>sampled. samplePoints [Value (1::nat), Value 2, Value 3, Value 4, Value 5] 3 = Some sampled
         \<and> hd sampled = Value 1 \<and> last sampled = Value 5
         \<and> subseq sampled [Value (1::nat), Value 2, Value 3, Value 4, Value 5]
         \<and> int (length sampled) \<le> 4)"
  using samplePoints_keeps_ends_in_order [of 3 "[Value (1::nat), Value 2, Value 3, Value 4, Value 5]"]
  by simp

text \<open>
  Four points with target 3: the step is \<open>floor (3 / 2) = 1\<close>, every point is visited
  and the output has four points, more than the target.
\<close>

theorem samplePoints_exceeds_targetCount:
  "(2::int) \<le> 3 \<and> 3 < int (length [Value (1::nat), Value 2, Value 3, Value 4])
   \<and> samplePoints [Value (1::nat), Value 2, Value 3, Value 4] 3
       = Some [Value 1, Value 2, Value 3, Value 4]
   \<and> \<not> int (length [Value (1::nat), Value 2, Value 3, Value 4]) \<le> 3"
  by code_simp

text \<open>
  Claim C5, as far as the code goes. No argument check exists and a division by zero does
  not fail. For a sequence longer than \<open>targetCount\<close>: with \<open>targetCount = 1\<close> the
  step is \<open>Infinity\<close>, the loop body never runs and the sampler returns the first and
  the last point; with \<open>targetCount \<le> 0\<close> and at least one point the step is not
  positive and the loop never ends, so that nothing is returned; with a negative
  \<open>targetCount\<close> and no point at all the sampler returns two \<open>undefined\<close> values.
\<close>

theorem samplePoints_small_targetCount:
  "(targetCount = 1 \<and> 1 < length allPoints \<longrightarrow>
      samplePoints allPoints targetCount = Some [hd allPoints, last allPoints])
   \<and> (targetCount \<le> 0 \<and> allPoints \<noteq> [] \<longrightarrow> samplePoints allPoints targetCount = None)
   \<and> (targetCount < 0 \<and> allPoints = [] \<longrightarrow>
        samplePoints allPoints targetCount = Some [Undefined, Undefined])"
  using samplePoints_one samplePoints_nonpos samplePoints_empty_neg by blast

text \<open>The three cases at three points, and at no point.\<close>

theorem samplePoints_small_targetCount_witness:
  "samplePoints [Value (1::nat), Value 2, Value 3] 1 = Some [Value 1, Value 3]
   \<and> samplePoints [Value (1::nat), Value 2, Value 3] 0 = None
   \<and> samplePoints ([] :: nat jsval list) (- 1) = Some [Undefined, Undefined]"
  using samplePoints_small_targetCount [of 1 "[Value (1::nat), Value 2, Value 3]"]
    samplePoints_small_targetCount [of 0 "[Value (1::nat), Value 2, Value 3]"]
    samplePoints_small_targetCount [of "- 1" "[] :: nat jsval list"]
  by simp

text \<open>
  Two points with target 1: the sequence is longer than the target, the target is at
  most 1, and the sampler returns a normal result.
\<close>

theorem samplePoints_targetCount_one_returns:
  "length [Value (1::nat), Value 2] > 1
   \<and> samplePoints [Value (1::nat), Value 2] 1 = Some [Value 1, Value 2]"
  by (simp add: samplePoints_def js_div_def js_sub_def sample_loop.simps)

section \<open>Properties of the aggregation\<close>

lemma hourDataPoints_eq:
  "hourDataPoints pss h = map (\<lambda>p. p ! h) (filter (\<lambda>p. h < length p) pss)"
  unfolding hourDataPoints_def List.map_filter_def
  by (induction pss) auto

lemma hourDataPoints_empty_iff:
  "hourDataPoints pss h = [] \<longleftrightarrow> Max (insert 0 (length ` set pss)) \<le> h"
proof -
  have "hourDataPoints pss h = [] \<longleftrightarrow> (\<forall>p\<in>set pss. length p \<le> h)"
    unfolding hourDataPoints_eq by (auto simp: filter_empty_conv not_less)
  also have "\<dots> \<longleftrightarrow> Max (insert 0 (length ` set pss)) \<le> h"
    by (subst Max_le_iff) auto
  finally show ?thesis .
qed

lemma length_aggregateHour: "length (aggregateHour ds) = (if ds = [] then 0 else 1)"
  by (cases ds) (simp_all add: Let_def)

lemma concat_upt_cut:
  assumes "m \<le> n" "\<And>h. m \<le> h \<Longrightarrow> f h = []"
  shows "concat (map f [0..<n]) = concat (map f [0..<m])"
  using assms(1)
proof (induction n)
  case 0
  then show ?case by simp
next
  case (Suc n)
  show ?case
  proof (cases "m = Suc n")
    case True
    then show ?thesis by simp
  next
    case False
    then have "m \<le> n" using Suc.prems by simp
    then show ?thesis using Suc.IH assms(2)[of n] by simp
  qed
qed

lemma concat_upt_singletons:
  assumes "\<And>h. h < n \<Longrightarrow> length (f h) = 1"
  shows "concat (map f [0..<n]) = map (\<lambda>h. hd (f h)) [0..<n]"
  using assms
proof (induction n)
  case 0
  then show ?case by simp
next
  case (Suc n)
  have "length (f n) = 1" using Suc.prems by simp
  then have "f n = [hd (f n)]" by (cases "f n") simp_all
  then show ?case using Suc by simp
qed

lemma aggregatedWeather_slots:
  fixes pss :: "weather list list"
  defines "M \<equiv> min 5 (Max (insert 0 (length ` set pss)))"
  shows "aggregatedWeather pss = map (\<lambda>h. hd (aggregateHour (hourDataPoints pss h))) [0..<M]"
    and "\<And>h. h < M \<Longrightarrow> hourDataPoints pss h \<noteq> []"
proof -
  define f where "f = (\<lambda>h. aggregateHour (hourDataPoints pss h))"
  define N where "N = Max (insert 0 (length ` set pss))"
  have M: "M = min 5 N" unfolding M_def N_def ..
  have iff: "hourDataPoints pss h = [] \<longleftrightarrow> N \<le> h" for h
    unfolding N_def by (rule hourDataPoints_empty_iff)
  have len: "length (f h) = (if N \<le> h then 0 else 1)" for h
    unfolding f_def length_aggregateHour iff ..
  have "f h = []" if "M \<le> h" "h < 5" for h
    using that len[of h] unfolding M by (simp add: min_def split: if_splits)
  then have cut: "concat (map f [0..<5]) = concat (map f [0..<M])"
  proof -
    have "concat (map f [0..<5]) = concat (map (\<lambda>h. if h < 5 then f h else []) [0..<5])"
      by (intro arg_cong[where f = concat] map_cong) simp_all
    also have "\<dots> = concat (map (\<lambda>h. if h < 5 then f h else []) [0..<M])"
      using \<open>\<And>h. M \<le> h \<Longrightarrow> h < 5 \<Longrightarrow> f h = []\<close>
      by (intro concat_upt_cut) (simp_all add: M)
    also have "\<dots> = concat (map f [0..<M])"
      by (intro arg_cong[where f = concat] map_cong) (simp_all add: M)
    finally show ?thesis .
  qed
  have one: "length (f h) = 1" if "h < M" for h
    using that len[of h] unfolding M by simp
  have "aggregatedWeather pss = concat (map f [0..<5])"
    unfolding aggregatedWeather_def f_def ..
  also note cut
  also have "concat (map f [0..<M]) = map (\<lambda>h. hd (f h)) [0..<M]"
    using one by (rule concat_upt_singletons)
  finally show "aggregatedWeather pss = map (\<lambda>h. hd (aggregateHour (hourDataPoints pss h))) [0..<M]"
    unfolding f_def .
  show "\<And>h. h < M \<Longrightarrow> hourDataPoints pss h \<noteq> []"
    using iff unfolding M by simp
qed

lemma aggregatedWeather_length:
  "length (aggregatedWeather pss) = min 5 (Max (insert 0 (length ` set pss)))"
  by (simp only: aggregatedWeather_slots(1) length_map length_upt diff_zero)

lemma aggregatedWeather_nth:
  assumes "k < length (aggregatedWeather pss)"
  shows "hourDataPoints pss k \<noteq> [] \<and> aggregateHour (hourDataPoints pss k) = [aggregatedWeather pss ! k]"
proof -
  define M where "M = min 5 (Max (insert 0 (length ` set pss)))"
  have k: "k < M" using assms unfolding M_def aggregatedWeather_length .
  have ne: "hourDataPoints pss k \<noteq> []"
    using k aggregatedWeather_slots(2)[of k pss] unfolding M_def by blast
  then have "length (aggregateHour (hourDataPoints pss k)) = 1"
    by (simp add: length_aggregateHour)
  then have one: "aggregateHour (hourDataPoints pss k) = [hd (aggregateHour (hourDataPoints pss k))]"
    by (cases "aggregateHour (hourDataPoints pss k)") simp_all
  have "aggregatedWeather pss ! k = map (\<lambda>h. hd (aggregateHour (hourDataPoints pss h))) [0..<M] ! k"
    unfolding M_def by (simp only: aggregatedWeather_slots(1)[symmetric])
  also have "\<dots> = hd (aggregateHour (hourDataPoints pss k))" using k by simp
  finally show ?thesis using ne one by simp
qed

lemma aggregateHour_fields:
  assumes "ds \<noteq> []"
  shows "\<exists>r. aggregateHour ds = [r]
     \<and> temperatureMin r = Some (Min (temperature ` set ds))
     \<and> temperatureMax r = Some (Max (temperature ` set ds))
     \<and> temperature r = \<lfloor>(of_int (Min (temperature ` set ds)) + of_int (Max (temperature ` set ds))) / (2::rat) + 1 / 2\<rfloor>
     \<and> windSpeed r = Max (windSpeed ` set ds)
     \<and> precipitationChance r = Max (precipitationChance ` set ds)
     \<and> humidity r = \<lfloor>of_int (sum_list (map humidity ds)) / (of_nat (length ds) :: rat) + 1 / 2\<rfloor>
     \<and> time r = time (hd ds) \<and> weatherCode r = weatherCode (hd ds)
     \<and> isAggregated r \<and> location r = Value ''GPX Route''"
proof -
  obtain d ds' where ds: "ds = d # ds'" using assms by (cases ds) auto
  have mn: "fold min (map f ds') (f d) = Min (f ` set ds)" for f :: "weather \<Rightarrow> int"
    unfolding ds using Min.set_eq_fold[of "f d" "map f ds'"] by simp
  have mx: "fold max (map f ds') (f d) = Max (f ` set ds)" for f :: "weather \<Rightarrow> int"
    unfolding ds using Max.set_eq_fold[of "f d" "map f ds'"] by simp
  show ?thesis
    unfolding ds aggregateHour.simps Let_def list.map list.sel mn[unfolded ds] mx[unfolded ds]
      Math_round_def
    by simp
qed

lemma hourDataPoints_mset:
  assumes "mset pss' = mset pss"
  shows "mset (hourDataPoints pss' h) = mset (hourDataPoints pss h)"
  unfolding hourDataPoints_eq using assms by simp

lemma aggregateHour_mset_time:
  assumes "mset ds' = mset ds" and "\<forall>d\<in>set ds. time d = t"
  shows "map (\<lambda>r. r\<lparr>weatherCode := 0\<rparr>) (aggregateHour ds')
       = map (\<lambda>r. r\<lparr>weatherCode := 0\<rparr>) (aggregateHour ds)"
proof (cases "ds = []")
  case True
  then show ?thesis using assms by simp
next
  case False
  then have ne': "ds' \<noteq> []" using assms by auto
  have set: "set ds' = set ds" using assms(1) by (rule mset_eq_setD)
  have len: "length ds' = length ds" using assms(1) by (rule mset_eq_length)
  have "sum_mset (mset (map humidity ds')) = sum_mset (mset (map humidity ds))"
    using assms(1) by simp
  then have sum: "sum_list (map humidity ds') = sum_list (map humidity ds)"
    by (simp only: sum_mset_sum_list)
  have t: "time (hd ds) = t" using False assms(2) by (metis hd_in_set)
  have "hd ds' \<in> set ds" using ne' set by (metis hd_in_set)
  then have t': "time (hd ds') = t" using assms(2) by blast
  obtain r where r: "aggregateHour ds = [r]"
    "temperatureMin r = Some (Min (temperature ` set ds))"
    "temperatureMax r = Some (Max (temperature ` set ds))"
    "temperature r = \<lfloor>(of_int (Min (temperature ` set ds)) + of_int (Max (temperature ` set ds))) / (2::rat) + 1 / 2\<rfloor>"
    "windSpeed r = Max (windSpeed ` set ds)"
    "precipitationChance r = Max (precipitationChance ` set ds)"
    "humidity r = \<lfloor>of_int (sum_list (map humidity ds)) / (of_nat (length ds) :: rat) + 1 / 2\<rfloor>"
    "isAggregated r" "location r = Value ''GPX Route''" "time r = time (hd ds)"
    using aggregateHour_fields[OF False] by blast
  obtain r' where r': "aggregateHour ds' = [r']"
    "temperatureMin r' = Some (Min (temperature ` set ds'))"
    "temperatureMax r' = Some (Max (temperature ` set ds'))"
    "temperature r' = \<lfloor>(of_int (Min (temperature ` set ds')) + of_int (Max (temperature ` set ds'))) / (2::rat) + 1 / 2\<rfloor>"
    "windSpeed r' = Max (windSpeed ` set ds')"
    "precipitationChance r' = Max (precipitationChance ` set ds')"
    "humidity r' = \<lfloor>of_int (sum_list (map humidity ds')) / (of_nat (length ds') :: rat) + 1 / 2\<rfloor>"
    "isAggregated r'" "location r' = Value ''GPX Route''" "time r' = time (hd ds')"
    using aggregateHour_fields[OF ne'] by blast
  have "r'\<lparr>weatherCode := 0\<rparr> = r\<lparr>weatherCode := 0\<rparr>"
    using r(2-) r'(2-) t t' unfolding set len sum by (intro weather.equality) simp_all
  then show ?thesis unfolding r(1) r'(1) by simp
qed

lemma hourDataPoints_time:
  assumes "\<forall>p\<in>set pss. \<forall>k<length p. time (p ! k) = startTime + int k * 60 * 60 * 1000"
  shows "\<forall>d\<in>set (hourDataPoints pss h). time d = startTime + int h * 60 * 60 * 1000"
  using assms unfolding hourDataPoints_eq by auto

lemma aggregatedWeather_permutation_time:
  assumes "mset pss' = mset pss"
    and "\<forall>p\<in>set pss. \<forall>k<length p. time (p ! k) = startTime + int k * 60 * 60 * 1000"
  shows "map (\<lambda>r. r\<lparr>weatherCode := 0\<rparr>) (aggregatedWeather pss')
       = map (\<lambda>r. r\<lparr>weatherCode := 0\<rparr>) (aggregatedWeather pss)"
  unfolding aggregatedWeather_def map_concat map_map comp_def
  using aggregateHour_mset_time[OF hourDataPoints_mset[OF assms(1)] hourDataPoints_time[OF assms(2)]]
  by simp

text \<open>
  Claim C2, as far as the code goes. A slot is pushed as soon as one point has a sample at
  that index, so the number of aggregated samples is the greatest length among the
  per-point sequences (0 when there is no point), capped at the five slots of the loop;
  it is not the least length.
\<close>

theorem aggregatedWeather_length_max:
  "length (aggregatedWeather allWeatherResults)
     = min 5 (Max (insert 0 (length ` set allWeatherResults)))"
  by (rule aggregatedWeather_length)

text \<open>
  One point with two samples and one point with one sample: two slots are aggregated,
  although the shorter sequence has one sample only.
\<close>

theorem aggregatedWeather_length_not_min:
  "length (aggregatedWeather
     [[\<lparr>location = Value ''A'', time = 0, temperature = 50, temperatureMin = None,
        temperatureMax = None, windSpeed = 5, precipitationChance = 10, humidity = 40,
        weatherCode = 0, isAggregated = False\<rparr>,
       \<lparr>location = Value ''A'', time = 3600000, temperature = 52, temperatureMin = None,
        temperatureMax = None, windSpeed = 6, precipitationChance = 10, humidity = 42,
        weatherCode = 0, isAggregated = False\<rparr>],
      [\<lparr>location = Value ''B'', time = 0, temperature = 40, temperatureMin = None,
        temperatureMax = None, windSpeed = 12, precipitationChance = 20, humidity = 61,
        weatherCode = 61, isAggregated = False\<rparr>]]) = 2
   \<and> Min (length ` set
     [[\<lparr>location = Value ''A'', time = 0, temperature = 50, temperatureMin = None,
        temperatureMax = None, windSpeed = 5, precipitationChance = 10, humidity = 40,
        weatherCode = 0, isAggregated = False\<rparr>,
       \<lparr>location = Value ''A'', time = 3600000, temperature = 52, temperatureMin = None,
        temperatureMax = None, windSpeed = 6, precipitationChance = 10, humidity = 42,
        weatherCode = 0, isAggregated = False\<rparr>],
      [\<lparr>location = Value ''B'', time = 0, temperature = 40, temperatureMin = None,
        temperatureMax = None, windSpeed = 12, precipitationChance = 20, humidity = 61,
        weatherCode = 61, isAggregated = False\<rparr>]]) = 1"
  by (simp add: aggregatedWeather_def hourDataPoints_def List.map_filter_def upt_rec)

text \<open>
  Claim C6. A slot built from a non-empty collection \<open>ds\<close> of samples has the minimum
  and the maximum of the collected temperatures, their midpoint rounded (a tie going up)
  as the temperature, the maximum wind speed, the maximum precipitation chance, the
  rounded mean of the humidities, and the time and the weather code of the first collected
  sample. The \<open>k\<close>-th sample of the output is the slot built from the samples that the
  points have at index \<open>k\<close>, of which there is at least one. When every point has the
  same five temperatures \<open>vs\<close>, the minimum and the maximum of slot \<open>k\<close> are both the
  \<open>k\<close>-th of them.
\<close>

theorem aggregatedWeather_slot_summary:
  "(ds \<noteq> [] \<longrightarrow>
      (\<exists>r. aggregateHour ds = [r]
         \<and> temperatureMin r = Some (Min (temperature ` set ds))
         \<and> temperatureMax r = Some (Max (temperature ` set ds))
         \<and> temperature r
             = \<lfloor>(of_int (Min (temperature ` set ds)) + of_int (Max (temperature ` set ds)))
                 / (2::rat) + 1 / 2\<rfloor>
         \<and> windSpeed r = Max (windSpeed ` set ds)
         \<and> precipitationChance r = Max (precipitationChance ` set ds)
         \<and> humidity r
             = \<lfloor>of_int (sum_list (map humidity ds)) / (of_nat (length ds) :: rat) + 1 / 2\<rfloor>
         \<and> time r = time (hd ds) \<and> weatherCode r = weatherCode (hd ds)))
   \<and> (k < length (aggregatedWeather allWeatherResults) \<longrightarrow>
        hourDataPoints allWeatherResults k \<noteq> []
        \<and> aggregateHour (hourDataPoints allWeatherResults k)
            = [aggregatedWeather allWeatherResults ! k])
   \<and> (allWeatherResults \<noteq> [] \<and> length vs = 5
        \<and> (\<forall>p\<in>set allWeatherResults. map temperature p = vs) \<longrightarrow>
        map temperatureMin (aggregatedWeather allWeatherResults) = map Some vs
        \<and> map temperatureMax (aggregatedWeather allWeatherResults) = map Some vs)"
proof (intro conjI impI)
  assume "ds \<noteq> []"
  then show "\<exists>r. aggregateHour ds = [r]
         \<and> temperatureMin r = Some (Min (temperature ` set ds))
         \<and> temperatureMax r = Some (Max (temperature ` set ds))
         \<and> temperature r
             = \<lfloor>(of_int (Min (temperature ` set ds)) + of_int (Max (temperature ` set ds)))
                 / (2::rat) + 1 / 2\<rfloor>
         \<and> windSpeed r = Max (windSpeed ` set ds)
         \<and> precipitationChance r = Max (precipitationChance ` set ds)
         \<and> humidity r
             = \<lfloor>of_int (sum_list (map humidity ds)) / (of_nat (length ds) :: rat) + 1 / 2\<rfloor>
         \<and> time r = time (hd ds) \<and> weatherCode r = weatherCode (hd ds)"
    using aggregateHour_fields[of ds] by blast
next
  assume "k < length (aggregatedWeather allWeatherResults)"
  then show "hourDataPoints allWeatherResults k \<noteq> []"
    and "aggregateHour (hourDataPoints allWeatherResults k)
            = [aggregatedWeather allWeatherResults ! k]"
    using aggregatedWeather_nth by blast+
next
  assume a: "allWeatherResults \<noteq> [] \<and> length vs = 5
        \<and> (\<forall>p\<in>set allWeatherResults. map temperature p = vs)"
  define pss where "pss = allWeatherResults"
  have ne: "pss \<noteq> []" and vs: "length vs = 5"
    and same: "\<And>p. p \<in> set pss \<Longrightarrow> map temperature p = vs"
    using a unfolding pss_def by blast+
  have len: "length p = 5" if "p \<in> set pss" for p
    using same[OF that] vs by (metis length_map)
  have "length ` set pss = {5}" using ne len by (cases pss) auto
  then have M: "min 5 (Max (insert 0 (length ` set pss))) = 5" by simp
  have slot: "temperatureMin (hd (aggregateHour (hourDataPoints pss h))) = Some (vs ! h)
      \<and> temperatureMax (hd (aggregateHour (hourDataPoints pss h))) = Some (vs ! h)"
    if h: "h < 5" for h
  proof -
    have "filter (\<lambda>p. h < length p) pss = pss" using len h by (simp add: filter_id_conv)
    then have hd: "hourDataPoints pss h = map (\<lambda>p. p ! h) pss"
      unfolding hourDataPoints_eq by simp
    have "temperature (p ! h) = vs ! h" if "p \<in> set pss" for p
      using same[OF that] len[OF that] h by (metis nth_map)
    then have "temperature ` set (hourDataPoints pss h) = {vs ! h}"
      unfolding hd using ne by (cases pss) auto
    moreover have "hourDataPoints pss h \<noteq> []" unfolding hd using ne by simp
    ultimately show ?thesis
      using aggregateHour_fields[of "hourDataPoints pss h"] by auto
  qed
  have agg: "aggregatedWeather pss
      = map (\<lambda>h. hd (aggregateHour (hourDataPoints pss h))) [0..<5]"
    using aggregatedWeather_slots(1)[of pss] unfolding M .
  have "map temperatureMin (aggregatedWeather pss) = map (\<lambda>h. Some (vs ! h)) [0..<5]"
    unfolding agg map_map comp_def using slot by (intro map_cong) simp_all
  also have "\<dots> = map Some (map (\<lambda>h. vs ! h) [0..<length vs])"
    unfolding vs by simp
  also have "\<dots> = map Some vs" by (simp only: map_nth)
  finally show "map temperatureMin (aggregatedWeather allWeatherResults) = map Some vs"
    unfolding pss_def .
  have "map temperatureMax (aggregatedWeather pss) = map (\<lambda>h. Some (vs ! h)) [0..<5]"
    unfolding agg map_map comp_def using slot by (intro map_cong) simp_all
  also have "\<dots> = map Some (map (\<lambda>h. vs ! h) [0..<length vs])"
    unfolding vs by simp
  also have "\<dots> = map Some vs" by (simp only: map_nth)
  finally show "map temperatureMax (aggregatedWeather allWeatherResults) = map Some vs"
    unfolding pss_def .
qed

text \<open>
  Two points at 50 and 40 degrees in one slot; two points at 50 degrees in all five slots.
\<close>

theorem aggregatedWeather_slot_summary_witness:
  "aggregateHour
     [\<lparr>location = Value ''A'', time = 0, temperature = 50, temperatureMin = None,
        temperatureMax = None, windSpeed = 5, precipitationChance = 10, humidity = 40,
        weatherCode = 0, isAggregated = False\<rparr>,
      \<lparr>location = Value ''B'', time = 0, temperature = 40, temperatureMin = None,
        temperatureMax = None, windSpeed = 12, precipitationChance = 20, humidity = 61,
        weatherCode = 61, isAggregated = False\<rparr>]
   = [\<lparr>location = Value ''GPX Route'', time = 0, temperature = 45, temperatureMin = Some 40,
        temperatureMax = Some 50, windSpeed = 12, precipitationChance = 20, humidity = 51,
        weatherCode = 0, isAggregated = True\<rparr>]
   \<and> aggregateHour (hourDataPoints
       [[\<lparr>location = Value ''A'', time = 0, temperature = 50, temperatureMin = None,
        temperatureMax = None, windSpeed = 5, precipitationChance = 10, humidity = 40,
        weatherCode = 0, isAggregated = False\<rparr>],
        [\<lparr>location = Value ''B'', time = 0, temperature = 40, temperatureMin = None,
        temperatureMax = None, windSpeed = 12, precipitationChance = 20, humidity = 61,
        weatherCode = 61, isAggregated = False\<rparr>]] 0)
      = [aggregatedWeather
       [[\<lparr>location = Value ''A'', time = 0, temperature = 50, temperatureMin = None,
        temperatureMax = None, windSpeed = 5, precipitationChance = 10, humidity = 40,
        weatherCode = 0, isAggregated = False\<rparr>],
        [\<lparr>location = Value ''B'', time = 0, temperature = 40, temperatureMin = None,
        temperatureMax = None, windSpeed = 12, precipitationChance = 20, humidity = 61,
        weatherCode = 61, isAggregated = False\<rparr>]] ! 0]
   \<and> map temperatureMin (aggregatedWeather
       [replicate 5 \<lparr>location = Value ''A'', time = 0, temperature = 50, temperatureMin = None,
        temperatureMax = None, windSpeed = 5, precipitationChance = 10, humidity = 40,
        weatherCode = 0, isAggregated = False\<rparr>,
        replicate 5 \<lparr>location = Value ''B'', time = 0, temperature = 50, temperatureMin = None,
        temperatureMax = None, windSpeed = 12, precipitationChance = 20, humidity = 61,
        weatherCode = 61, isAggregated = False\<rparr>])
      = map Some (replicate 5 50)
   \<and> map temperatureMax (aggregatedWeather
       [replicate 5 \<lparr>location = Value ''A'', time = 0, temperature = 50, temperatureMin = None,
        temperatureMax = None, windSpeed = 5, precipitationChance = 10, humidity = 40,
        weatherCode = 0, isAggregated = False\<rparr>,
        replicate 5 \<lparr>location = Value ''B'', time = 0, temperature = 50, temperatureMin = None,
        temperatureMax = None, windSpeed = 12, precipitationChance = 20, humidity = 61,
        weatherCode = 61, isAggregated = False\<rparr>])
      = map Some (replicate 5 50)"
proof -
  have l: "0 < length (aggregatedWeather
       [[\<lparr>location = Value ''A'', time = 0, temperature = 50, temperatureMin = None,
        temperatureMax = None, windSpeed = 5, precipitationChance = 10, humidity = 40,
        weatherCode = 0, isAggregated = False\<rparr>],
        [\<lparr>location = Value ''B'', time = 0, temperature = 40, temperatureMin = None,
        temperatureMax = None, windSpeed = 12, precipitationChance = 20, humidity = 61,
        weatherCode = 61, isAggregated = False\<rparr>]])"
    by (simp add: aggregatedWeather_length)
  have m: "(\<lfloor>101 / (2::rat) + 1 / 2\<rfloor> :: int) = 51" "(\<lfloor>90 / (2::rat) + 1 / 2\<rfloor> :: int) = 45"
    by linarith+
  show ?thesis
    using l m
      aggregatedWeather_slot_summary
        [of "[\<lparr>location = Value ''A'', time = 0, temperature = 50, temperatureMin = None,
        temperatureMax = None, windSpeed = 5, precipitationChance = 10, humidity = 40,
        weatherCode = 0, isAggregated = False\<rparr>,
              \<lparr>location = Value ''B'', time = 0, temperature = 40, temperatureMin = None,
        temperatureMax = None, windSpeed = 12, precipitationChance = 20, humidity = 61,
        weatherCode = 61, isAggregated = False\<rparr>]"
            0
            "[[\<lparr>location = Value ''A'', time = 0, temperature = 50, temperatureMin = None,
        temperatureMax = None, windSpeed = 5, precipitationChance = 10, humidity = 40,
        weatherCode = 0, isAggregated = False\<rparr>],
              [\<lparr>location = Value ''B'', time = 0, temperature = 40, temperatureMin = None,
        temperatureMax = None, windSpeed = 12, precipitationChance = 20, humidity = 61,
        weatherCode = 61, isAggregated = False\<rparr>]]"
            "[]"]
      aggregatedWeather_slot_summary
        [of "[]" 0
            "[replicate 5 \<lparr>location = Value ''A'', time = 0, temperature = 50, temperatureMin = None,
        temperatureMax = None, windSpeed = 5, precipitationChance = 10, humidity = 40,
        weatherCode = 0, isAggregated = False\<rparr>,
              replicate 5 \<lparr>location = Value ''B'', time = 0, temperature = 50, temperatureMin = None,
        temperatureMax = None, windSpeed = 12, precipitationChance = 20, humidity = 61,
        weatherCode = 61, isAggregated = False\<rparr>]"
            "replicate 5 50"]
    by (auto simp: Math_round_def)
qed

section \<open>Properties of the recommendation engine\<close>

lemma floor_rat_numeral_div:
  "\<lfloor>numeral a / (numeral b :: rat)\<rfloor> = numeral a div numeral b"
  using floor_divide_of_int_eq[of "numeral a" "numeral b", where ?'a = rat] by simp

lemma find_effort:
  assumes "effortLevel \<in> set (map effort_id EFFORT_LEVELS)"
  shows "\<exists>e. find (\<lambda>e. effort_id e = effortLevel) EFFORT_LEVELS = Some e
           \<and> e \<in> set EFFORT_LEVELS \<and> effort_id e = effortLevel"
proof (cases "find (\<lambda>e. effort_id e = effortLevel) EFFORT_LEVELS")
  case None
  then show ?thesis using assms by (auto simp: find_None_iff)
next
  case (Some e)
  then show ?thesis by (auto simp: find_Some_iff)
qed

lemma layers_nonempty:
  "getRunningLayers t w r \<noteq> []"
  "getMountainBikeLayers t w r \<noteq> []"
  "getRoadBikeLayers t w r \<noteq> []"
  "getDownhillSkiLayers t w r \<noteq> []"
  "getBackcountrySkiLayers t w r \<noteq> []"
  "getNordicSkiLayers t w r \<noteq> []"
  by (simp_all add: getRunningLayers_def getMountainBikeLayers_def getRoadBikeLayers_def
      getDownhillSkiLayers_def getBackcountrySkiLayers_def getNordicSkiLayers_def)

lemma activity_ids:
  "set (map activity_id ACTIVITIES)
     = {''run'', ''mountain-bike'', ''road-bike'', ''downhill-ski'', ''backcountry-ski'',
        ''nordic-ski''}"
  by (simp add: ACTIVITIES_def)

lemma generateRecommendations_known:
  assumes "find (\<lambda>e. effort_id e = effortLevel) EFFORT_LEVELS = Some e"
  shows "generateRecommendations ''run'' ws effortLevel
           = Inr (Layers (getRunningLayers (feltTemp ws e) (maxWind ws) (hasRain ws)))"
    and "generateRecommendations ''mountain-bike'' ws effortLevel
           = Inr (Layers (getMountainBikeLayers (feltTemp ws e) (maxWind ws) (hasRain ws)))"
    and "generateRecommendations ''road-bike'' ws effortLevel
           = Inr (Layers (getRoadBikeLayers (feltTemp ws e) (maxWind ws) (hasRain ws)))"
    and "generateRecommendations ''downhill-ski'' ws effortLevel
           = Inr (Layers (getDownhillSkiLayers (feltTemp ws e) (maxWind ws) (hasRain ws)))"
    and "generateRecommendations ''backcountry-ski'' ws effortLevel
           = Inr (Layers (getBackcountrySkiLayers (feltTemp ws e) (maxWind ws) (hasRain ws)))"
    and "generateRecommendations ''nordic-ski'' ws effortLevel
           = Inr (Layers (getNordicSkiLayers (feltTemp ws e) (maxWind ws) (hasRain ws)))"
  unfolding generateRecommendations_def assms Let_def by simp_all

lemma generateRecommendations_unknown:
  assumes "find (\<lambda>e. effort_id e = effortLevel) EFFORT_LEVELS = Some e"
    and "act \<notin> set (map activity_id ACTIVITIES)"
  shows "generateRecommendations act ws effortLevel
           = Inr (if act \<in> set Object_prototype then Inherited act else Layers [])"
  using assms(2) unfolding generateRecommendations_def assms(1) Let_def activity_ids
  by simp

lemma layers_band_lengths:
  "length (getRunningLayers temp wind rain)
     = (if js_lt temp (Fin 32) then 5 else if js_lt temp (Fin 50) then 3
        else if js_lt temp (Fin 65) then 2 else 3)
       + (if js_gt wind (Fin 15) then 1 else 0) + (if rain then 1 else 0)"
  "length (getMountainBikeLayers temp wind rain)
     = (if js_lt temp (Fin 40) then 5 else if js_lt temp (Fin 60) then 3 else 3)
       + (if rain then 1 else 0) + 2"
  "length (getRoadBikeLayers temp wind rain)
     = (if js_lt temp (Fin 45) then 5 else if js_lt temp (Fin 65) then 3 else 3)
       + (if js_gt wind (Fin 15) then 1 else 0) + (if rain then 1 else 0) + 2"
  "length (getDownhillSkiLayers temp wind rain) = (if js_lt temp (Fin 20) then 6 else 6) + 2"
  "length (getBackcountrySkiLayers temp wind rain) = (if js_lt temp (Fin 20) then 5 else 4) + 4"
  "length (getNordicSkiLayers temp wind rain)
     = (if js_lt temp (Fin 20) then 4 else if js_lt temp (Fin 40) then 3 else 3)
       + (if js_gt wind (Fin 15) \<or> rain then 1 else 0) + 1"
  by (simp_all add: getRunningLayers_def getMountainBikeLayers_def getRoadBikeLayers_def
      getDownhillSkiLayers_def getBackcountrySkiLayers_def getNordicSkiLayers_def)

lemma layers_band_first:
  "type (hd (getRunningLayers temp wind rain)) = ''Base Layer''"
  "type (hd (getMountainBikeLayers temp wind rain)) = ''Base Layer''"
  "type (hd (getRoadBikeLayers temp wind rain)) = ''Base Layer''"
  "type (hd (getDownhillSkiLayers temp wind rain)) = ''Base Layer''"
  "type (hd (getBackcountrySkiLayers temp wind rain)) = ''Base Layer''"
  "type (hd (getNordicSkiLayers temp wind rain)) = ''Base Layer''"
  by (simp_all add: getRunningLayers_def getMountainBikeLayers_def getRoadBikeLayers_def
      getDownhillSkiLayers_def getBackcountrySkiLayers_def getNordicSkiLayers_def)

text \<open>
  Claim C10. For each of the six known activity ids, a non-empty forecast sequence and a
  valid effort level, \<open>generateRecommendations\<close> returns a non-empty list of layers.
  Every temperature band of every per-activity layer function contributes items: the
  length of each list is the number of items of the band the temperature falls in (at
  least two in every band), plus one for each wind or rain item that applies, plus the
  number of unconditional items; and the first item of each list is a base layer, which
  only the bands push.
\<close>

theorem generateRecommendations_known_activity_nonempty:
  assumes "act \<in> set (map activity_id ACTIVITIES)"
    and "weatherData \<noteq> []"
    and "effortLevel \<in> set (map effort_id EFFORT_LEVELS)"
  shows "(\<exists>ls. generateRecommendations act weatherData effortLevel = Inr (Layers ls) \<and> ls \<noteq> []
           \<and> type (hd ls) = ''Base Layer'' \<and> 2 \<le> length ls)
    \<and> getRunningLayers temp wind rain \<noteq> []
    \<and> getMountainBikeLayers temp wind rain \<noteq> []
    \<and> getRoadBikeLayers temp wind rain \<noteq> []
    \<and> getDownhillSkiLayers temp wind rain \<noteq> []
    \<and> getBackcountrySkiLayers temp wind rain \<noteq> []
    \<and> getNordicSkiLayers temp wind rain \<noteq> []
    \<and> length (getRunningLayers temp wind rain)
        = (if js_lt temp (Fin 32) then 5 else if js_lt temp (Fin 50) then 3
           else if js_lt temp (Fin 65) then 2 else 3)
          + (if js_gt wind (Fin 15) then 1 else 0) + (if rain then 1 else 0)
    \<and> length (getMountainBikeLayers temp wind rain)
        = (if js_lt temp (Fin 40) then 5 else if js_lt temp (Fin 60) then 3 else 3)
          + (if rain then 1 else 0) + 2
    \<and> length (getRoadBikeLayers temp wind rain)
        = (if js_lt temp (Fin 45) then 5 else if js_lt temp (Fin 65) then 3 else 3)
          + (if js_gt wind (Fin 15) then 1 else 0) + (if rain then 1 else 0) + 2
    \<and> length (getDownhillSkiLayers temp wind rain) = (if js_lt temp (Fin 20) then 6 else 6) + 2
    \<and> length (getBackcountrySkiLayers temp wind rain)
        = (if js_lt temp (Fin 20) then 5 else 4) + 4
    \<and> length (getNordicSkiLayers temp wind rain)
        = (if js_lt temp (Fin 20) then 4 else if js_lt temp (Fin 40) then 3 else 3)
          + (if js_gt wind (Fin 15) \<or> rain then 1 else 0) + 1
    \<and> type (hd (getRunningLayers temp wind rain)) = ''Base Layer''
    \<and> type (hd (getMountainBikeLayers temp wind rain)) = ''Base Layer''
    \<and> type (hd (getRoadBikeLayers temp wind rain)) = ''Base Layer''
    \<and> type (hd (getDownhillSkiLayers temp wind rain)) = ''Base Layer''
    \<and> type (hd (getBackcountrySkiLayers temp wind rain)) = ''Base Layer''
    \<and> type (hd (getNordicSkiLayers temp wind rain)) = ''Base Layer''"
proof -
  obtain e where e: "find (\<lambda>e. effort_id e = effortLevel) EFFORT_LEVELS = Some e"
    using find_effort[OF assms(3)] by blast
  have two: "2 \<le> length (getRunningLayers t w r)" "2 \<le> length (getMountainBikeLayers t w r)"
    "2 \<le> length (getRoadBikeLayers t w r)" "2 \<le> length (getDownhillSkiLayers t w r)"
    "2 \<le> length (getBackcountrySkiLayers t w r)" "2 \<le> length (getNordicSkiLayers t w r)"
    for t w r
    unfolding layers_band_lengths by simp_all
  have "\<exists>ls. generateRecommendations act weatherData effortLevel = Inr (Layers ls) \<and> ls \<noteq> []
           \<and> type (hd ls) = ''Base Layer'' \<and> 2 \<le> length ls"
    using assms(1) unfolding activity_ids
    by (auto simp: generateRecommendations_known[OF e] layers_nonempty layers_band_first two)
  then show ?thesis
    using layers_nonempty[of temp wind rain] layers_band_lengths[of temp wind rain]
      layers_band_first[of temp wind rain]
    by blast
qed

text \<open>
  Nordic skiing at easy effort with one sample of 50 degrees; the nordic table at 30 degrees
  without wind or rain has the three items of its middle band and the sunglasses.
\<close>

theorem generateRecommendations_known_activity_nonempty_witness:
  "''nordic-ski'' \<in> set (map activity_id ACTIVITIES)
   \<and> ''easy'' \<in> set (map effort_id EFFORT_LEVELS)
   \<and> (\<exists>ls. generateRecommendations ''nordic-ski''
         [\<lparr>location = Value ''A'', time = 0, temperature = 50, temperatureMin = None,
          temperatureMax = None, windSpeed = 5, precipitationChance = 10, humidity = 40,
          weatherCode = 0, isAggregated = False\<rparr>] ''easy'' = Inr (Layers ls) \<and> ls \<noteq> []
         \<and> type (hd ls) = ''Base Layer'' \<and> 2 \<le> length ls)
   \<and> length (getNordicSkiLayers (Fin 30) (Fin 5) False) = 4"
  using generateRecommendations_known_activity_nonempty
     [of "''nordic-ski''"
         "[\<lparr>location = Value ''A'', time = 0, temperature = 50, temperatureMin = None,
          temperatureMax = None, windSpeed = 5, precipitationChance = 10, humidity = 40,
          weatherCode = 0, isAggregated = False\<rparr>]" "''easy''" "Fin 30" "Fin 5" False]
  by (simp add: ACTIVITIES_def EFFORT_LEVELS_def js_gt_def)

text \<open>
  Claim C9, at an input where the code departs from it. The activity id \<open>toString\<close> is
  none of the six known ids, and the effort level is valid; \<open>layers[activity]\<close> finds the
  function that every object inherits under that name, which is truthy, so that
  \<open>|| []\<close> does not apply: the result is that function and not the empty list.
\<close>

theorem generateRecommendations_inherited_property:
  "''toString'' \<notin> set (map activity_id ACTIVITIES)
   \<and> ''easy'' \<in> set (map effort_id EFFORT_LEVELS)
   \<and> generateRecommendations ''toString''
        [\<lparr>location = Value ''A'', time = 0, temperature = 50, temperatureMin = None,
          temperatureMax = None, windSpeed = 5, precipitationChance = 10, humidity = 40,
          weatherCode = 0, isAggregated = False\<rparr>] ''easy'' = Inr (Inherited ''toString'')"
  by (simp add: generateRecommendations_def EFFORT_LEVELS_def ACTIVITIES_def Object_prototype_def)

text \<open>
  The base temperature on the two kinds of sequences, and the felt temperature for the
  four effort levels. On an aggregated sequence the base temperature is the minimum of
  \<open>temperatureMin\<close> provided that no \<open>temperatureMin\<close> is 0.
\<close>

lemma avgTemp_plain:
  assumes "weatherData \<noteq> []" "\<not> isAggregated (hd weatherData)"
  shows "avgTemp weatherData
     = Fin (of_int (sum_list (map temperature weatherData)) / of_nat (length weatherData))"
  using assms unfolding avgTemp_def js_div_def by (cases weatherData) simp_all

lemma avgTemp_aggregated:
  assumes "weatherData \<noteq> []" "isAggregated (hd weatherData)"
    and "\<forall>w\<in>set weatherData. \<exists>m. temperatureMin w = Some m \<and> m \<noteq> 0"
  shows "avgTemp weatherData = Fin (of_int (Min ((\<lambda>w. the (temperatureMin w)) ` set weatherData)))"
proof -
  obtain w ws where ws: "weatherData = w # ws" using assms(1) by (cases weatherData) auto
  have eq: "map (\<lambda>w. case temperatureMin w of None \<Rightarrow> temperature w
                   | Some m \<Rightarrow> if m = 0 then temperature w else m) weatherData
      = map (\<lambda>w. the (temperatureMin w)) weatherData"
    using assms(3) by (intro map_cong) auto
  have "avgTemp weatherData = Math_min (map (\<lambda>w. case temperatureMin w of None \<Rightarrow> temperature w
                   | Some m \<Rightarrow> if m = 0 then temperature w else m) weatherData)"
    using assms(2) unfolding avgTemp_def ws by simp
  also have "\<dots> = Math_min (map (\<lambda>w. the (temperatureMin w)) weatherData)"
    by (simp only: eq)
  also have "\<dots> = Fin (of_int (Min ((\<lambda>w. the (temperatureMin w)) ` set weatherData)))"
    unfolding ws using Min.set_eq_fold[of "the (temperatureMin w)" "map (\<lambda>w. the (temperatureMin w)) ws"]
    by simp
  finally show ?thesis .
qed

lemma feltTemp_by_effort:
  "find (\<lambda>e. effort_id e = ''easy'') EFFORT_LEVELS = Some e \<Longrightarrow>
     feltTemp ws e = js_add (avgTemp ws) (Fin ((7 / 10 - 1) * 15))"
  "find (\<lambda>e. effort_id e = ''endurance'') EFFORT_LEVELS = Some e \<Longrightarrow>
     feltTemp ws e = js_add (avgTemp ws) (Fin ((1 - 1) * 15))"
  "find (\<lambda>e. effort_id e = ''tempo'') EFFORT_LEVELS = Some e \<Longrightarrow>
     feltTemp ws e = js_add (avgTemp ws) (Fin ((13 / 10 - 1) * 15))"
  "find (\<lambda>e. effort_id e = ''all-out'') EFFORT_LEVELS = Some e \<Longrightarrow>
     feltTemp ws e = js_add (avgTemp ws) (Fin ((16 / 10 - 1) * 15))"
  by (auto simp: EFFORT_LEVELS_def feltTemp_def)

text \<open>
  Claim C3, at an input where the code departs from it. Two route points at 0 and at 40
  degrees aggregate to one sample with \<open>temperatureMin = 0\<close> and \<open>temperature = 20\<close>.
  The coldest temperature is 0, but \<open>w.temperatureMin || w.temperature\<close> takes the
  temperature when \<open>temperatureMin\<close> is 0: the base temperature is 20. At effort
  \<open>endurance\<close> the downhill-ski table is read at 20 degrees, and its list differs from
  the one at 0 degrees.
\<close>

theorem avgTemp_ignores_zero_minimum:
  "aggregatedWeather
     [[\<lparr>location = Value ''Summit'', time = 0, temperature = 0, temperatureMin = None,
          temperatureMax = None, windSpeed = 10, precipitationChance = 0, humidity = 50,
          weatherCode = 0, isAggregated = False\<rparr>],
      [\<lparr>location = Value ''Valley'', time = 0, temperature = 40, temperatureMin = None,
          temperatureMax = None, windSpeed = 5, precipitationChance = 0, humidity = 60,
          weatherCode = 0, isAggregated = False\<rparr>]]
   = [\<lparr>location = Value ''GPX Route'', time = 0, temperature = 20, temperatureMin = Some 0,
          temperatureMax = Some 40, windSpeed = 10, precipitationChance = 0, humidity = 55,
          weatherCode = 0, isAggregated = True\<rparr>]
   \<and> avgTemp
       [\<lparr>location = Value ''GPX Route'', time = 0, temperature = 20, temperatureMin = Some 0,
          temperatureMax = Some 40, windSpeed = 10, precipitationChance = 0, humidity = 55,
          weatherCode = 0, isAggregated = True\<rparr>] = Fin 20
   \<and> generateRecommendations ''downhill-ski''
       [\<lparr>location = Value ''GPX Route'', time = 0, temperature = 20, temperatureMin = Some 0,
          temperatureMax = Some 40, windSpeed = 10, precipitationChance = 0, humidity = 55,
          weatherCode = 0, isAggregated = True\<rparr>] ''endurance''
      = Inr (Layers (getDownhillSkiLayers (Fin 20) (Fin 10) False))
   \<and> getDownhillSkiLayers (Fin 20) (Fin 10) False \<noteq> getDownhillSkiLayers (Fin 0) (Fin 10) False"
proof -
  have a: "aggregatedWeather
     [[\<lparr>location = Value ''Summit'', time = 0, temperature = 0, temperatureMin = None,
          temperatureMax = None, windSpeed = 10, precipitationChance = 0, humidity = 50,
          weatherCode = 0, isAggregated = False\<rparr>],
      [\<lparr>location = Value ''Valley'', time = 0, temperature = 40, temperatureMin = None,
          temperatureMax = None, windSpeed = 5, precipitationChance = 0, humidity = 60,
          weatherCode = 0, isAggregated = False\<rparr>]]
   = [\<lparr>location = Value ''GPX Route'', time = 0, temperature = 20, temperatureMin = Some 0,
          temperatureMax = Some 40, windSpeed = 10, precipitationChance = 0, humidity = 55,
          weatherCode = 0, isAggregated = True\<rparr>]"
    by (simp add: aggregatedWeather_def hourDataPoints_def List.map_filter_def upt_rec
        Math_round_def floor_rat_numeral_div)
  have b: "avgTemp
       [\<lparr>location = Value ''GPX Route'', time = 0, temperature = 20, temperatureMin = Some 0,
          temperatureMax = Some 40, windSpeed = 10, precipitationChance = 0, humidity = 55,
          weatherCode = 0, isAggregated = True\<rparr>] = Fin 20"
    by (simp add: avgTemp_def)
  have c: "generateRecommendations ''downhill-ski''
       [\<lparr>location = Value ''GPX Route'', time = 0, temperature = 20, temperatureMin = Some 0,
          temperatureMax = Some 40, windSpeed = 10, precipitationChance = 0, humidity = 55,
          weatherCode = 0, isAggregated = True\<rparr>] ''endurance''
      = Inr (Layers (getDownhillSkiLayers (Fin 20) (Fin 10) False))"
    by (simp add: generateRecommendations_def EFFORT_LEVELS_def feltTemp_def avgTemp_def
        maxWind_def hasRain_def)
  have d: "getDownhillSkiLayers (Fin 20) (Fin 10) False \<noteq> getDownhillSkiLayers (Fin 0) (Fin 10) False"
    by (simp add: getDownhillSkiLayers_def)
  show ?thesis using a b c d by blast
qed

section \<open>Properties of the forecast fetcher\<close>

lemma Math_round_bounds:
  assumes "of_int a \<le> x" "x \<le> of_int b"
  shows "a \<le> Math_round x \<and> Math_round x \<le> b"
proof -
  have "of_int a \<le> x + 1 / 2" using assms(1) by simp
  then have "a \<le> \<lfloor>x + 1 / 2\<rfloor>" by (simp only: le_floor_iff)
  moreover have "x + 1 / 2 < of_int b + 1" using assms(2) by simp
  then have "\<lfloor>x + 1 / 2\<rfloor> \<le> b" by (simp only: floor_le_iff)
  ultimately show ?thesis unfolding Math_round_def by simp
qed

lemma mockSample_ranges:
  assumes "\<And>k. 0 \<le> random k \<and> random k < 1"
  shows "45 \<le> temperature (mockSample locations startTime random i)
       \<and> temperature (mockSample locations startTime random i) \<le> 85
       \<and> 5 \<le> windSpeed (mockSample locations startTime random i)
       \<and> windSpeed (mockSample locations startTime random i) \<le> 20
       \<and> 0 \<le> precipitationChance (mockSample locations startTime random i)
       \<and> precipitationChance (mockSample locations startTime random i) \<le> 100
       \<and> 40 \<le> humidity (mockSample locations startTime random i)
       \<and> humidity (mockSample locations startTime random i) \<le> 80"
proof -
  define r0 r1 r2 r3 r4 where "r0 = random (5 * i)" and "r1 = random (5 * i + 1)"
    and "r2 = random (5 * i + 2)" and "r3 = random (5 * i + 3)" and "r4 = random (5 * i + 4)"
  have r: "0 \<le> r0" "r0 < 1" "0 \<le> r1" "r1 < 1" "0 \<le> r2" "r2 < 1" "0 \<le> r3" "r3 < 1"
    "0 \<le> r4" "r4 < 1"
    using assms unfolding r0_def r1_def r2_def r3_def r4_def by simp_all
  have t: "45 \<le> Math_round (50 + r0 * 30 + (r1 - 1 / 2) * 10)
         \<and> Math_round (50 + r0 * 30 + (r1 - 1 / 2) * 10) \<le> 85"
    using r(1-4) by (intro Math_round_bounds) simp_all
  have w: "5 \<le> Math_round (5 + r2 * 15) \<and> Math_round (5 + r2 * 15) \<le> 20"
    using r(5,6) by (intro Math_round_bounds) simp_all
  have p: "0 \<le> Math_round (r3 * 100) \<and> Math_round (r3 * 100) \<le> 100"
    using r(7,8) by (intro Math_round_bounds) simp_all
  have h: "40 \<le> Math_round (40 + r4 * 40) \<and> Math_round (40 + r4 * 40) \<le> 80"
    using r(9,10) by (intro Math_round_bounds) simp_all
  show ?thesis
    using t w p h unfolding mockSample_def Let_def r0_def r1_def r2_def r3_def r4_def by simp
qed

lemma findIndex_None_iff: "findIndex P xs = None \<longleftrightarrow> \<not> list_ex P xs"
  by (induction xs) simp_all

lemma length_hourSample:
  "length (hourSample c startDate hourly i)
     = (if list_ex (\<lambda>t. startDate + int i * 60 * 60 * 1000 \<le> hour_time t) hourly then 1 else 0)"
  unfolding hourSample_def Let_def
  by (cases "findIndex (\<lambda>t. startDate + int i * 60 * 60 * 1000 \<le> hour_time t) hourly")
     (simp_all add: findIndex_None_iff[symmetric])

lemma length_concat_filter:
  assumes "\<And>x. length (f x) = (if P x then 1 else 0)"
  shows "length (concat (map f xs)) = length (filter P xs)"
  by (induction xs) (simp_all add: assms)

text \<open>
  Claim C4, as far as the code goes. \<open>fetchWeatherData\<close> returns at most five samples.
  When no coordinates are found or the provider call fails, the result is the mock
  generator's. When the provider answers, slot \<open>i\<close> gives a sample exactly when some
  hourly time is at or after the start time plus \<open>i\<close> hours; a slot that does not
  resolve is skipped, and nothing falls back to the mock data. The mock generator always
  gives five samples, and with random numbers in \<open>[0, 1)\<close> their temperatures are in
  45..85 (a base in 50..80 and a jitter of 5 either way), the wind speeds in 5..20, the precipitation
  chances in 0..100 and the humidities in 40..80.
\<close>

theorem fetchWeatherData_at_most_five:
  "length (result_weatherData
       (fetchWeatherData locations startTime providedCoords geocoded response random)) \<le> 5
   \<and> ((providedCoords = None \<and> geocoded = None) \<or> response = ProviderFailure \<longrightarrow>
        fetchWeatherData locations startTime providedCoords geocoded response random
          = \<lparr>result_weatherData = generateMockWeather locations startTime random,
             result_coords = None\<rparr>)
   \<and> (providedCoords = Some c \<or> (providedCoords = None \<and> geocoded = Some c) \<longrightarrow>
        result_weatherData
          (fetchWeatherData locations startTime providedCoords geocoded (Hourly hourly) random)
          = concat (map (hourSample c startTime hourly) [0..<5])
        \<and> length (result_weatherData
            (fetchWeatherData locations startTime providedCoords geocoded (Hourly hourly) random))
          = length (filter
              (\<lambda>i. list_ex (\<lambda>t. startTime + int i * 60 * 60 * 1000 \<le> hour_time t) hourly)
              [0..<5]))
   \<and> length (generateMockWeather locations startTime random) = 5
   \<and> ((\<forall>k. 0 \<le> random k \<and> random k < 1) \<longrightarrow>
        list_all (\<lambda>w. 45 \<le> temperature w \<and> temperature w \<le> 85
                     \<and> 5 \<le> windSpeed w \<and> windSpeed w \<le> 20
                     \<and> 0 \<le> precipitationChance w \<and> precipitationChance w \<le> 100
                     \<and> 40 \<le> humidity w \<and> humidity w \<le> 80)
          (generateMockWeather locations startTime random))"
proof (intro conjI impI)
  have m: "length (generateMockWeather locations startTime random) = 5"
    unfolding generateMockWeather_def by simp
  have "length (concat (map (hourSample c' startTime h) [0..<5])) \<le> 5" for c' h
    unfolding length_concat_filter[of "hourSample c' startTime h", OF length_hourSample]
    using length_filter_le[of _ "[0..<5]"] by (metis diff_zero length_upt)
  then show "length (result_weatherData
       (fetchWeatherData locations startTime providedCoords geocoded response random)) \<le> 5"
    unfolding fetchWeatherData_def using m
    by (simp split: option.splits provider_response.splits)
  show "length (generateMockWeather locations startTime random) = 5" by (rule m)
next
  assume "(providedCoords = None \<and> geocoded = None) \<or> response = ProviderFailure"
  then show "fetchWeatherData locations startTime providedCoords geocoded response random
          = \<lparr>result_weatherData = generateMockWeather locations startTime random,
             result_coords = None\<rparr>"
    unfolding fetchWeatherData_def by (auto split: option.splits provider_response.splits)
next
  assume c: "providedCoords = Some c \<or> (providedCoords = None \<and> geocoded = Some c)"
  then show r: "result_weatherData
          (fetchWeatherData locations startTime providedCoords geocoded (Hourly hourly) random)
          = concat (map (hourSample c startTime hourly) [0..<5])"
    unfolding fetchWeatherData_def by auto
  show "length (result_weatherData
            (fetchWeatherData locations startTime providedCoords geocoded (Hourly hourly) random))
          = length (filter
              (\<lambda>i. list_ex (\<lambda>t. startTime + int i * 60 * 60 * 1000 \<le> hour_time t) hourly)
              [0..<5])"
    unfolding r by (rule length_concat_filter) (rule length_hourSample)
next
  assume "\<forall>k. 0 \<le> random k \<and> random k < 1"
  then show "list_all (\<lambda>w. 45 \<le> temperature w \<and> temperature w \<le> 85
                     \<and> 5 \<le> windSpeed w \<and> windSpeed w \<le> 20
                     \<and> 0 \<le> precipitationChance w \<and> precipitationChance w \<le> 100
                     \<and> 40 \<le> humidity w \<and> humidity w \<le> 80)
          (generateMockWeather locations startTime random)"
    unfolding generateMockWeather_def list_all_iff
    using mockSample_ranges[of random locations startTime] by auto
qed

text \<open>
  No coordinates at all; a provider answer of two hours; random numbers all \<open>1 / 2\<close>.
\<close>

theorem fetchWeatherData_at_most_five_witness:
  "fetchWeatherData [''Boulder''] 0 None None (Hourly []) (\<lambda>k. 1 / 2)
     = \<lparr>result_weatherData = generateMockWeather [''Boulder''] 0 (\<lambda>k. 1 / 2),
        result_coords = None\<rparr>
   \<and> length (result_weatherData
       (fetchWeatherData [''Boulder''] 0 (Some \<lparr>lat = 40, lon = - 105, name = ''Boulder''\<rparr>) None
          (Hourly [\<lparr>hour_time = 0, temperature_2m = 543 / 10, precipitation_probability = None,
                    wind_speed_10m = 15 / 2, relative_humidity_2m = 40, weather_code = 3\<rparr>,
                   \<lparr>hour_time = 3600000, temperature_2m = 55, precipitation_probability = Some 20,
                    wind_speed_10m = 8, relative_humidity_2m = 42, weather_code = 3\<rparr>])
          (\<lambda>k. 1 / 2))) = 2
   \<and> list_all (\<lambda>w. 45 \<le> temperature w \<and> temperature w \<le> 85
                     \<and> 5 \<le> windSpeed w \<and> windSpeed w \<le> 20
                     \<and> 0 \<le> precipitationChance w \<and> precipitationChance w \<le> 100
                     \<and> 40 \<le> humidity w \<and> humidity w \<le> 80)
          (generateMockWeather [''Boulder''] 0 (\<lambda>k. 1 / 2))"
proof -
  define c where "c = \<lparr>lat = 40, lon = - 105, name = ''Boulder''\<rparr>"
  define hourly where "hourly =
    [\<lparr>hour_time = 0, temperature_2m = 543 / 10, precipitation_probability = None,
      wind_speed_10m = 15 / 2, relative_humidity_2m = 40, weather_code = 3\<rparr>,
     \<lparr>hour_time = 3600000, temperature_2m = 55, precipitation_probability = Some 20,
      wind_speed_10m = 8, relative_humidity_2m = 42, weather_code = 3\<rparr>]"
  have f: "filter (\<lambda>i. list_ex (\<lambda>t. 0 + int i * 60 * 60 * 1000 \<le> hour_time t) hourly) [0..<5]
      = [0, 1]"
    unfolding hourly_def by (simp add: upt_rec)
  have r: "\<forall>k::nat. (0::rat) \<le> 1 / 2 \<and> (1 / 2 :: rat) < 1" by simp
  have 1: "fetchWeatherData [''Boulder''] 0 None None (Hourly []) (\<lambda>k. 1 / 2)
     = \<lparr>result_weatherData = generateMockWeather [''Boulder''] 0 (\<lambda>k. 1 / 2),
        result_coords = None\<rparr>"
    and 3: "list_all (\<lambda>w. 45 \<le> temperature w \<and> temperature w \<le> 85
                     \<and> 5 \<le> windSpeed w \<and> windSpeed w \<le> 20
                     \<and> 0 \<le> precipitationChance w \<and> precipitationChance w \<le> 100
                     \<and> 40 \<le> humidity w \<and> humidity w \<le> 80)
          (generateMockWeather [''Boulder''] 0 (\<lambda>k. 1 / 2))"
    using r fetchWeatherData_at_most_five
      [of "[''Boulder'']" 0 None None "Hourly []" "\<lambda>k. 1 / 2" c hourly]
    by blast+
  have "length (result_weatherData
       (fetchWeatherData [''Boulder''] 0 (Some c) None (Hourly hourly) (\<lambda>k. 1 / 2)))
     = length (filter (\<lambda>i. list_ex (\<lambda>t. 0 + int i * 60 * 60 * 1000 \<le> hour_time t) hourly)
         [0..<5])"
    using fetchWeatherData_at_most_five
      [of "[''Boulder'']" 0 "Some c" None "Hourly hourly" "\<lambda>k. 1 / 2" c hourly]
    by blast
  then have 2: "length (result_weatherData
       (fetchWeatherData [''Boulder''] 0 (Some c) None (Hourly hourly) (\<lambda>k. 1 / 2))) = 2"
    unfolding f by simp
  show ?thesis using 1 2 3 unfolding c_def hourly_def by blast
qed

text \<open>
  The provider answers with two hours, the first at the start time: slots 0 and 1 resolve,
  slots 2 to 4 do not, and the result is these two samples with the coordinates, not the
  mock data.
\<close>

theorem fetchWeatherData_fewer_than_five:
  "fetchWeatherData [''Boulder''] 0 (Some \<lparr>lat = 40, lon = - 105, name = ''Boulder''\<rparr>) None
     (Hourly [\<lparr>hour_time = 0, temperature_2m = 543 / 10, precipitation_probability = None,
               wind_speed_10m = 15 / 2, relative_humidity_2m = 40, weather_code = 3\<rparr>,
              \<lparr>hour_time = 3600000, temperature_2m = 55, precipitation_probability = Some 20,
               wind_speed_10m = 8, relative_humidity_2m = 42, weather_code = 3\<rparr>])
     (\<lambda>k. 1 / 2)
   = \<lparr>result_weatherData =
        [\<lparr>location = Value ''Boulder'', time = 0, temperature = 54, temperatureMin = None,
          temperatureMax = None, windSpeed = 8, precipitationChance = 0, humidity = 40,
          weatherCode = 3, isAggregated = False\<rparr>,
         \<lparr>location = Value ''Boulder'', time = 3600000, temperature = 55, temperatureMin = None,
          temperatureMax = None, windSpeed = 8, precipitationChance = 20, humidity = 42,
          weatherCode = 3, isAggregated = False\<rparr>],
      result_coords = Some \<lparr>lat = 40, lon = - 105, name = ''Boulder''\<rparr>\<rparr>"
proof -
  have r: "Math_round (543 / 10) = 54" "Math_round (15 / 2) = 8" "Math_round 55 = 55"
    "Math_round 8 = 8"
    unfolding Math_round_def by linarith+
  show ?thesis
    by (simp add: fetchWeatherData_def hourSample_def upt_rec r)
qed

section \<open>Order of the points in the aggregation\<close>

lemma filter_upt_antitone:
  assumes "\<And>i j. i \<le> j \<Longrightarrow> P j \<Longrightarrow> P i"
  shows "filter P [0..<n] = [0..<length (filter P [0..<n])]"
proof (induction n)
  case 0
  then show ?case by simp
next
  case (Suc n)
  show ?case
  proof (cases "P n")
    case True
    then have "\<forall>i\<in>set [0..<n]. P i" using assms[of _ n] by simp
    then have "filter P [0..<n] = [0..<n]" by (simp only: filter_True)
    then show ?thesis using True by simp
  next
    case False
    then show ?thesis using Suc by simp
  qed
qed

lemma concat_map_if:
  "concat (map (\<lambda>i. if P i then [r i] else []) xs) = map r (filter P xs)"
  by (induction xs) simp_all

lemma hourSample_time:
  assumes "list_ex (\<lambda>t. startDate + int i * 60 * 60 * 1000 \<le> hour_time t) hourly"
  shows "\<exists>w. hourSample c startDate hourly i = [w] \<and> time w = startDate + int i * 60 * 60 * 1000"
proof (cases "findIndex (\<lambda>t. startDate + int i * 60 * 60 * 1000 \<le> hour_time t) hourly")
  case None
  then show ?thesis using assms by (simp add: findIndex_None_iff)
next
  case (Some a)
  then show ?thesis unfolding hourSample_def Let_def by simp
qed

lemma hourSamples_times:
  assumes "k < length (concat (map (hourSample c startTime hourly) [0..<5]))"
  shows "time (concat (map (hourSample c startTime hourly) [0..<5]) ! k)
           = startTime + int k * 60 * 60 * 1000"
proof -
  define P where "P = (\<lambda>i. list_ex (\<lambda>t. startTime + int i * 60 * 60 * 1000 \<le> hour_time t) hourly)"
  define r where "r = (\<lambda>i. hd (hourSample c startTime hourly i))"
  have anti: "P i" if "i \<le> j" "P j" for i j
  proof -
    have "startTime + int i * 60 * 60 * 1000 \<le> startTime + int j * 60 * 60 * 1000"
      using that(1) by simp
    then show ?thesis using that(2) unfolding P_def list_ex_iff by force
  qed
  have f: "hourSample c startTime hourly i = (if P i then [r i] else [])" for i
  proof (cases "P i")
    case True
    then show ?thesis using hourSample_time[of startTime i hourly c] unfolding P_def r_def by auto
  next
    case False
    then show ?thesis using length_hourSample[of c startTime hourly i] unfolding P_def by simp
  qed
  have rt: "time (r i) = startTime + int i * 60 * 60 * 1000" if "P i" for i
    using that hourSample_time[of startTime i hourly c] unfolding P_def r_def by auto
  define M where "M = length (filter P [0..<5])"
  have "concat (map (hourSample c startTime hourly) [0..<5])
      = concat (map (\<lambda>i. if P i then [r i] else []) [0..<5])"
    by (intro arg_cong[where f = concat] map_cong refl f)
  also have "\<dots> = map r (filter P [0..<5])" by (rule concat_map_if)
  also have "filter P [0..<5] = [0..<M]"
    unfolding M_def using anti by (rule filter_upt_antitone)
  finally have eq: "concat (map (hourSample c startTime hourly) [0..<5]) = map r [0..<M]" .
  have k: "k < M" using assms unfolding eq by simp
  then have "k \<in> set (filter P [0..<5])"
    using \<open>filter P [0..<5] = [0..<M]\<close> by simp
  then have "P k" by simp
  then show ?thesis unfolding eq using k rt by simp
qed

lemma fetchWeatherData_slot_times:
  assumes "k < length (result_weatherData
      (fetchWeatherData locations startTime providedCoords geocoded response random))"
  shows "time (result_weatherData
      (fetchWeatherData locations startTime providedCoords geocoded response random) ! k)
        = startTime + int k * 60 * 60 * 1000"
proof -
  have m: "time (generateMockWeather locations startTime random ! k)
      = startTime + int k * 60 * 60 * 1000"
    if "k < length (generateMockWeather locations startTime random)"
    using that unfolding generateMockWeather_def by (simp add: mockSample_def Let_def)
  show ?thesis
    using assms m hourSamples_times[of k _ startTime]
    unfolding fetchWeatherData_def
    by (auto split: option.splits provider_response.splits)
qed

text \<open>
  Claim C7, as far as the code goes. The \<open>k\<close>-th sample of every sequence that
  \<open>fetchWeatherData\<close> returns, from the provider or from the mock generator, has the time
  of the start plus \<open>k\<close> hours. For per-point sequences with these times, aggregating a
  permutation of them gives the same slots in the same hour order, with the same time,
  location, temperatures, wind speed, precipitation chance, humidity and flag in every
  slot. Only the weather code of a slot, which is that of the first point that has the
  slot, is left out of the comparison.
\<close>

theorem aggregatedWeather_permutation:
  "(k < length (result_weatherData
        (fetchWeatherData locations startTime providedCoords geocoded response random)) \<longrightarrow>
      time (result_weatherData
        (fetchWeatherData locations startTime providedCoords geocoded response random) ! k)
      = startTime + int k * 60 * 60 * 1000)
   \<and> (mset allWeatherResults' = mset allWeatherResults
        \<and> (\<forall>p\<in>set allWeatherResults. \<forall>h<length p.
              time (p ! h) = startTime + int h * 60 * 60 * 1000) \<longrightarrow>
        map (\<lambda>r. r\<lparr>weatherCode := 0\<rparr>) (aggregatedWeather allWeatherResults')
        = map (\<lambda>r. r\<lparr>weatherCode := 0\<rparr>) (aggregatedWeather allWeatherResults))"
  using fetchWeatherData_slot_times aggregatedWeather_permutation_time by blast

text \<open>
  The second sample of a provider answer of two hours; one point with two samples and one
  point with one sample, in both orders.
\<close>

theorem aggregatedWeather_permutation_witness:
  "time (result_weatherData
      (fetchWeatherData [''Boulder''] 0 (Some \<lparr>lat = 40, lon = - 105, name = ''Boulder''\<rparr>) None
        (Hourly [\<lparr>hour_time = 0, temperature_2m = 543 / 10, precipitation_probability = None,
                  wind_speed_10m = 15 / 2, relative_humidity_2m = 40, weather_code = 3\<rparr>,
                 \<lparr>hour_time = 3600000, temperature_2m = 55, precipitation_probability = Some 20,
                  wind_speed_10m = 8, relative_humidity_2m = 42, weather_code = 3\<rparr>])
        (\<lambda>k. 1 / 2)) ! 1) = 3600000
   \<and> map (\<lambda>r. r\<lparr>weatherCode := 0\<rparr>) (aggregatedWeather
        [[\<lparr>location = Value ''B'', time = 0, temperature = 40, temperatureMin = None,
        temperatureMax = None, windSpeed = 12, precipitationChance = 20, humidity = 61,
        weatherCode = 61, isAggregated = False\<rparr>],
         [\<lparr>location = Value ''A'', time = 0, temperature = 50, temperatureMin = None,
        temperatureMax = None, windSpeed = 5, precipitationChance = 10, humidity = 40,
        weatherCode = 0, isAggregated = False\<rparr>,
          \<lparr>location = Value ''A'', time = 3600000, temperature = 52, temperatureMin = None,
        temperatureMax = None, windSpeed = 6, precipitationChance = 10, humidity = 42,
        weatherCode = 0, isAggregated = False\<rparr>]])
     = map (\<lambda>r. r\<lparr>weatherCode := 0\<rparr>) (aggregatedWeather
        [[\<lparr>location = Value ''A'', time = 0, temperature = 50, temperatureMin = None,
        temperatureMax = None, windSpeed = 5, precipitationChance = 10, humidity = 40,
        weatherCode = 0, isAggregated = False\<rparr>,
          \<lparr>location = Value ''A'', time = 3600000, temperature = 52, temperatureMin = None,
        temperatureMax = None, windSpeed = 6, precipitationChance = 10, humidity = 42,
        weatherCode = 0, isAggregated = False\<rparr>],
         [\<lparr>location = Value ''B'', time = 0, temperature = 40, temperatureMin = None,
        temperatureMax = None, windSpeed = 12, precipitationChance = 20, humidity = 61,
        weatherCode = 61, isAggregated = False\<rparr>]])"
proof -
  define a0 where "a0 = \<lparr>location = Value ''A'', time = 0, temperature = 50, temperatureMin = None,
        temperatureMax = None, windSpeed = 5, precipitationChance = 10, humidity = 40,
        weatherCode = 0, isAggregated = False\<rparr>"
  define a1 where "a1 = \<lparr>location = Value ''A'', time = 3600000, temperature = 52, temperatureMin = None,
        temperatureMax = None, windSpeed = 6, precipitationChance = 10, humidity = 42,
        weatherCode = 0, isAggregated = False\<rparr>"
  define b0 where "b0 = \<lparr>location = Value ''B'', time = 0, temperature = 40, temperatureMin = None,
        temperatureMax = None, windSpeed = 12, precipitationChance = 20, humidity = 61,
        weatherCode = 61, isAggregated = False\<rparr>"
  have l: "1 < length (result_weatherData
      (fetchWeatherData [''Boulder''] 0 (Some \<lparr>lat = 40, lon = - 105, name = ''Boulder''\<rparr>) None
        (Hourly [\<lparr>hour_time = 0, temperature_2m = 543 / 10, precipitation_probability = None,
                  wind_speed_10m = 15 / 2, relative_humidity_2m = 40, weather_code = 3\<rparr>,
                 \<lparr>hour_time = 3600000, temperature_2m = 55, precipitation_probability = Some 20,
                  wind_speed_10m = 8, relative_humidity_2m = 42, weather_code = 3\<rparr>])
        (\<lambda>k. 1 / 2)))"
    by (simp add: fetchWeatherData_def hourSample_def upt_rec)
  have p: "mset [[b0], [a0, a1]] = mset [[a0, a1], [b0]]" by simp
  have h: "\<forall>p\<in>set [[a0, a1], [b0]]. \<forall>h<length p. time (p ! h) = 0 + int h * 60 * 60 * 1000"
    unfolding a0_def a1_def b0_def by (auto simp: less_Suc_eq)
  have 1: "time (result_weatherData
      (fetchWeatherData [''Boulder''] 0 (Some \<lparr>lat = 40, lon = - 105, name = ''Boulder''\<rparr>) None
        (Hourly [\<lparr>hour_time = 0, temperature_2m = 543 / 10, precipitation_probability = None,
                  wind_speed_10m = 15 / 2, relative_humidity_2m = 40, weather_code = 3\<rparr>,
                 \<lparr>hour_time = 3600000, temperature_2m = 55, precipitation_probability = Some 20,
                  wind_speed_10m = 8, relative_humidity_2m = 42, weather_code = 3\<rparr>])
        (\<lambda>k. 1 / 2)) ! 1) = 3600000"
    using l aggregatedWeather_permutation
      [of 1 "[''Boulder'']" 0 "Some \<lparr>lat = 40, lon = - 105, name = ''Boulder''\<rparr>" None
          "Hourly [\<lparr>hour_time = 0, temperature_2m = 543 / 10, precipitation_probability = None,
                  wind_speed_10m = 15 / 2, relative_humidity_2m = 40, weather_code = 3\<rparr>,
                 \<lparr>hour_time = 3600000, temperature_2m = 55, precipitation_probability = Some 20,
                  wind_speed_10m = 8, relative_humidity_2m = 42, weather_code = 3\<rparr>]"
          "\<lambda>k. 1 / 2" "[]" "[]"]
    by simp
  have 2: "map (\<lambda>r. r\<lparr>weatherCode := 0\<rparr>) (aggregatedWeather [[b0], [a0, a1]])
     = map (\<lambda>r. r\<lparr>weatherCode := 0\<rparr>) (aggregatedWeather [[a0, a1], [b0]])"
    using p h aggregatedWeather_permutation
      [of 0 "[]" 0 None None ProviderFailure "\<lambda>k. 0" "[[b0], [a0, a1]]" "[[a0, a1], [b0]]"]
    by blast
  show ?thesis using 1 2 unfolding a0_def a1_def b0_def by blast
qed

text \<open>
  Two points with one sample each for the same hour, with weather codes 0 and 61: the
  aggregated weather code is that of the point that comes first, 0 in one order and 61 in
  the other.
\<close>

theorem aggregatedWeather_order_dependent:
  "mset [[\<lparr>location = Value ''B'', time = 0, temperature = 40, temperatureMin = None,
        temperatureMax = None, windSpeed = 12, precipitationChance = 20, humidity = 61,
        weatherCode = 61, isAggregated = False\<rparr>],
         [\<lparr>location = Value ''A'', time = 0, temperature = 50, temperatureMin = None,
        temperatureMax = None, windSpeed = 5, precipitationChance = 10, humidity = 40,
        weatherCode = 0, isAggregated = False\<rparr>]]
   = mset [[\<lparr>location = Value ''A'', time = 0, temperature = 50, temperatureMin = None,
        temperatureMax = None, windSpeed = 5, precipitationChance = 10, humidity = 40,
        weatherCode = 0, isAggregated = False\<rparr>],
           [\<lparr>location = Value ''B'', time = 0, temperature = 40, temperatureMin = None,
        temperatureMax = None, windSpeed = 12, precipitationChance = 20, humidity = 61,
        weatherCode = 61, isAggregated = False\<rparr>]]
   \<and> map weatherCode (aggregatedWeather
        [[\<lparr>location = Value ''A'', time = 0, temperature = 50, temperatureMin = None,
        temperatureMax = None, windSpeed = 5, precipitationChance = 10, humidity = 40,
        weatherCode = 0, isAggregated = False\<rparr>],
         [\<lparr>location = Value ''B'', time = 0, temperature = 40, temperatureMin = None,
        temperatureMax = None, windSpeed = 12, precipitationChance = 20, humidity = 61,
        weatherCode = 61, isAggregated = False\<rparr>]]) = [0]
   \<and> map weatherCode (aggregatedWeather
        [[\<lparr>location = Value ''B'', time = 0, temperature = 40, temperatureMin = None,
        temperatureMax = None, windSpeed = 12, precipitationChance = 20, humidity = 61,
        weatherCode = 61, isAggregated = False\<rparr>],
         [\<lparr>location = Value ''A'', time = 0, temperature = 50, temperatureMin = None,
        temperatureMax = None, windSpeed = 5, precipitationChance = 10, humidity = 40,
        weatherCode = 0, isAggregated = False\<rparr>]]) = [61]"
  by (simp add: aggregatedWeather_def hourDataPoints_def List.map_filter_def upt_rec)

end
